theory Spec2Isabelle
  imports Main "HOL-Library.Sublist"
begin

section \<open>JavaScript values\<close>

text \<open>
  The order API of \<^verbatim>\<open>src/api/index.js\<close> is a set of Express handlers over the
  Google Sheets client. The handlers are embedded as functions from the request and the
  outcomes of the spreadsheet calls they await to the response they send and the list of
  spreadsheet calls they make. This section models the JavaScript values the handlers
  compute with.

  A JavaScript string is represented by the bytes of its UTF-8 encoding (\<^typ>\<open>string\<close>).
  Every string operation of the source (\<^verbatim>\<open>startsWith\<close>, \<^verbatim>\<open>split\<close> at an ASCII
  separator, \<^verbatim>\<open>===\<close>, concatenation) acts on that encoding as it does on the string.
\<close>

subsection \<open>Numbers: IEEE 754 doubles\<close>

text \<open>
  A double is NaN, an infinity (the flag is the sign, \<open>True\<close> for negative) or a finite
  value \<open>(-1)\<^sup>s * m * 2\<^sup>e\<close>, kept in the normal form where \<open>m\<close> is odd, or
  \<open>m = 0\<close> and \<open>e = 0\<close> (the two zeros differ in the sign), so that two finite numbers
  are the same double exactly when they are the same term.
\<close>

datatype jsnum = NaN | Infinity bool | Finite bool nat int

fun bitlen :: "nat \<Rightarrow> nat" where
  "bitlen n = (if n = 0 then 0 else Suc (bitlen (n div 2)))"

declare bitlen.simps [simp del]

fun normal_form :: "nat \<Rightarrow> int \<Rightarrow> nat \<times> int" where
  "normal_form m e =
     (if m = 0 then (0, 0)
      else if even m then normal_form (m div 2) (e + 1)
      else (m, e))"

declare normal_form.simps [simp del]

definition finite_double :: "bool \<Rightarrow> nat \<Rightarrow> int \<Rightarrow> jsnum" where
  "finite_double s m e = (case normal_form m e of (m', e') \<Rightarrow> Finite s m' e')"

text \<open>
  \<open>round_double s m e\<close> is the double nearest to \<open>(-1)\<^sup>s * m * 2\<^sup>e\<close>, ties to the
  even significand: 53 bits of significand, the least exponent of a subnormal's last
  bit is \<open>-1074\<close>, and a value that rounds to \<open>2\<^sup>1\<^sup>0\<^sup>2\<^sup>4\<close> or more is an infinity.
\<close>

definition round_double :: "bool \<Rightarrow> nat \<Rightarrow> int \<Rightarrow> jsnum" where
  "round_double s m e =
     (if m = 0 then Finite s 0 0
      else
        let n = int (bitlen m);
            t = max (e + n - 53) (- 1074)
        in if t \<le> e then (if e + n > 1024 then Infinity s else finite_double s m e)
           else
             let k = nat (t - e);
                 q = m div 2 ^ k;
                 r = m mod 2 ^ k;
                 h = 2 ^ (k - 1);
                 q' = (if r > h \<or> (r = h \<and> odd q) then q + 1 else q)
             in if int (bitlen q') + t > 1024 then Infinity s else finite_double s q' t)"

text \<open>
  The double nearest to the ratio \<open>n / d\<close> of two naturals (\<open>d > 0\<close>): the quotient is
  taken with at least 56 bits and a sticky bit for a non-zero remainder, which rounds as
  the exact ratio does.
\<close>

definition round_ratio :: "bool \<Rightarrow> nat \<Rightarrow> nat \<Rightarrow> jsnum" where
  "round_ratio s n d =
     (if n = 0 then Finite s 0 0
      else
        let sh = (bitlen d + 56) - bitlen n;
            q = (n * 2 ^ sh) div d;
            st = (if (n * 2 ^ sh) mod d = 0 then 0 else 1)
        in round_double s (2 * q + st) (- int sh - 1))"

definition num_of_nat :: "nat \<Rightarrow> jsnum" where
  "num_of_nat n = round_double False n 0"

definition js_zero :: jsnum where
  "js_zero = Finite False 0 0"

text \<open>The signed integer \<open>(-1)\<^sup>s * m * 2\<^sup>k\<close>.\<close>

definition signed_scaled :: "bool \<Rightarrow> nat \<Rightarrow> nat \<Rightarrow> int" where
  "signed_scaled s m k = (if s then - int (m * 2 ^ k) else int (m * 2 ^ k))"

text \<open>JavaScript's \<^verbatim>\<open>+\<close> on two numbers.\<close>

fun js_add :: "jsnum \<Rightarrow> jsnum \<Rightarrow> jsnum" where
  "js_add NaN _ = NaN"
| "js_add _ NaN = NaN"
| "js_add (Infinity s) (Infinity s') = (if s = s' then Infinity s else NaN)"
| "js_add (Infinity s) (Finite _ _ _) = Infinity s"
| "js_add (Finite _ _ _) (Infinity s) = Infinity s"
| "js_add (Finite s1 m1 e1) (Finite s2 m2 e2) =
     (let e0 = min e1 e2;
          x = signed_scaled s1 m1 (nat (e1 - e0)) + signed_scaled s2 m2 (nat (e2 - e0))
      in if x = 0 then Finite (s1 \<and> s2) 0 0
         else round_double (x < 0) (nat \<bar>x\<bar>) e0)"

text \<open>JavaScript's \<^verbatim>\<open>*\<close> on two numbers.\<close>

fun js_mul :: "jsnum \<Rightarrow> jsnum \<Rightarrow> jsnum" where
  "js_mul NaN _ = NaN"
| "js_mul _ NaN = NaN"
| "js_mul (Infinity s) (Infinity s') = Infinity (s \<noteq> s')"
| "js_mul (Infinity s) (Finite s' m _) = (if m = 0 then NaN else Infinity (s \<noteq> s'))"
| "js_mul (Finite s m _) (Infinity s') = (if m = 0 then NaN else Infinity (s \<noteq> s'))"
| "js_mul (Finite s1 m1 e1) (Finite s2 m2 e2) = round_double (s1 \<noteq> s2) (m1 * m2) (e1 + e2)"

text \<open>A number is falsy when it is NaN or a zero.\<close>

fun num_truthy :: "jsnum \<Rightarrow> bool" where
  "num_truthy NaN = False"
| "num_truthy (Infinity _) = True"
| "num_truthy (Finite _ m _) = (m \<noteq> 0)"

text \<open>\<^verbatim>\<open>n || 0\<close> for a number \<open>n\<close>.\<close>

definition or_zero :: "jsnum \<Rightarrow> jsnum" where
  "or_zero n = (if num_truthy n then n else js_zero)"

subsection \<open>Parsing numbers\<close>

definition code :: "char \<Rightarrow> nat" where
  "code c = of_char c"

definition is_digit :: "char \<Rightarrow> bool" where
  "is_digit c = (48 \<le> code c \<and> code c \<le> 57)"

definition digit_val :: "char \<Rightarrow> nat" where
  "digit_val c = code c - 48"

definition decimal_val :: "string \<Rightarrow> nat" where
  "decimal_val ds = foldl (\<lambda>acc c. 10 * acc + digit_val c) 0 ds"

text \<open>
  The white space that \<^verbatim>\<open>parseFloat\<close> and \<^verbatim>\<open>parseInt\<close> skip in front of the number
  (ECMAScript's StrWhiteSpaceChar), by its UTF-8 bytes: the ASCII controls and the space,
  U+00A0, U+1680, U+2000 to U+200A, U+2028, U+2029, U+202F, U+205F, U+3000 and U+FEFF.
\<close>

fun skip_white :: "string \<Rightarrow> string" where
  "skip_white [] = []"
| "skip_white (c # cs) =
     (let n = code c in
      if n = 9 \<or> n = 10 \<or> n = 11 \<or> n = 12 \<or> n = 13 \<or> n = 32 then skip_white cs
      else if n = 194 then
        (case cs of
           c1 # cs' \<Rightarrow> if code c1 = 160 then skip_white cs' else c # cs
         | _ \<Rightarrow> c # cs)
      else if n = 225 \<or> n = 226 \<or> n = 227 \<or> n = 239 then
        (case cs of
           c1 # c2 # cs' \<Rightarrow>
             (let a = code c1; b = code c2 in
              if (n = 225 \<and> a = 154 \<and> b = 128)
                 \<or> (n = 226 \<and> a = 128 \<and> (128 \<le> b \<and> b \<le> 138 \<or> b = 168 \<or> b = 169 \<or> b = 175))
                 \<or> (n = 226 \<and> a = 129 \<and> b = 159)
                 \<or> (n = 227 \<and> a = 128 \<and> b = 128)
                 \<or> (n = 239 \<and> a = 187 \<and> b = 191)
              then skip_white cs' else c # cs)
         | _ \<Rightarrow> c # cs)
      else c # cs)"

text \<open>
  The optional exponent part of a decimal literal: \<open>e\<close> or \<open>E\<close>, an optional sign and at
  least one digit; anything else is not part of the number.
\<close>

definition exponent_part :: "string \<Rightarrow> int" where
  "exponent_part s =
     (case s of
        c # cs \<Rightarrow>
          if c = CHR ''e'' \<or> c = CHR ''E'' then
            (case cs of
               d # ds \<Rightarrow>
                 if d = CHR ''-'' then - int (decimal_val (takeWhile is_digit ds))
                 else if d = CHR ''+'' then int (decimal_val (takeWhile is_digit ds))
                 else int (decimal_val (takeWhile is_digit cs))
             | [] \<Rightarrow> 0)
          else 0
      | [] \<Rightarrow> 0)"

text \<open>
  \<^verbatim>\<open>parseFloat\<close> on a string: the longest prefix of the trimmed string that is a decimal
  literal (an optional sign, then \<^verbatim>\<open>Infinity\<close>, or digits with an optional fraction
  and exponent), rounded to a double; NaN when there is no such prefix.
\<close>

definition unsigned_float :: "bool \<Rightarrow> string \<Rightarrow> jsnum" where
  "unsigned_float s str =
     (if prefix ''Infinity'' str then Infinity s
      else
        let ip = takeWhile is_digit str;
            r1 = dropWhile is_digit str;
            has_dot = (r1 \<noteq> [] \<and> hd r1 = CHR ''.'');
            fp = (if has_dot then takeWhile is_digit (tl r1) else []);
            r2 = (if has_dot then dropWhile is_digit (tl r1) else r1)
        in if ip = [] \<and> fp = [] then NaN
           else
             let x = exponent_part r2 - int (length fp);
                 d = decimal_val (ip @ fp)
             in if 0 \<le> x then round_double s (d * 10 ^ nat x) 0
                else round_ratio s d (10 ^ nat (- x)))"

definition parse_float :: "string \<Rightarrow> jsnum" where
  "parse_float str =
     (case skip_white str of
        [] \<Rightarrow> NaN
      | c # cs \<Rightarrow>
          if c = CHR ''-'' then unsigned_float True cs
          else if c = CHR ''+'' then unsigned_float False cs
          else unsigned_float False (c # cs))"

definition is_hex_digit :: "char \<Rightarrow> bool" where
  "is_hex_digit c =
     (is_digit c \<or> (97 \<le> code c \<and> code c \<le> 102) \<or> (65 \<le> code c \<and> code c \<le> 70))"

definition hex_digit_val :: "char \<Rightarrow> nat" where
  "hex_digit_val c =
     (if is_digit c then code c - 48
      else if 97 \<le> code c \<and> code c \<le> 102 then code c - 87
      else code c - 55)"

text \<open>
  \<^verbatim>\<open>parseInt\<close> on a string, with no radix given: white space and a sign are skipped, a
  prefix \<^verbatim>\<open>0x\<close> or \<^verbatim>\<open>0X\<close> selects radix 16, the digits up to the first other character
  are read; NaN when there is no digit.
\<close>

definition unsigned_int :: "bool \<Rightarrow> string \<Rightarrow> jsnum" where
  "unsigned_int s str =
     (if prefix ''0x'' str \<or> prefix ''0X'' str then
        (let ds = takeWhile is_hex_digit (drop 2 str) in
         if ds = [] then NaN
         else round_double s (foldl (\<lambda>acc c. 16 * acc + hex_digit_val c) 0 ds) 0)
      else
        (let ds = takeWhile is_digit str in
         if ds = [] then NaN else round_double s (decimal_val ds) 0))"

definition parse_int :: "string \<Rightarrow> jsnum" where
  "parse_int str =
     (case skip_white str of
        [] \<Rightarrow> NaN
      | c # cs \<Rightarrow>
          if c = CHR ''-'' then unsigned_int True cs
          else if c = CHR ''+'' then unsigned_int False cs
          else unsigned_int False (c # cs))"

text \<open>
  A cell read out of a row is a string or \<^verbatim>\<open>undefined\<close> (\<open>None\<close>) when the row is
  shorter; \<^verbatim>\<open>parseFloat(undefined)\<close> and \<^verbatim>\<open>parseInt(undefined)\<close> parse the text
  \<^verbatim>\<open>undefined\<close>, which has no numeric prefix.
\<close>

definition parseFloat :: "string option \<Rightarrow> jsnum" where
  "parseFloat c = (case c of None \<Rightarrow> NaN | Some s \<Rightarrow> parse_float s)"

definition parseInt :: "string option \<Rightarrow> jsnum" where
  "parseInt c = (case c of None \<Rightarrow> NaN | Some s \<Rightarrow> parse_int s)"

subsection \<open>Strings\<close>

text \<open>\<^verbatim>\<open>s.split(sep)\<close> for a separator of one ASCII character.\<close>

fun split_at :: "char \<Rightarrow> string \<Rightarrow> string list" where
  "split_at sep [] = [[]]"
| "split_at sep (c # cs) =
     (if c = sep then [] # split_at sep cs
      else (case split_at sep cs of
              p # ps \<Rightarrow> (c # p) # ps
            | [] \<Rightarrow> [[c]]))"

text \<open>\<^verbatim>\<open>s.includes(sub)\<close>.\<close>

fun includes_str :: "string \<Rightarrow> string \<Rightarrow> bool" where
  "includes_str [] sub = (sub = [])"
| "includes_str (c # cs) sub = (prefix sub (c # cs) \<or> includes_str cs sub)"

text \<open>\<^verbatim>\<open>xs[i]\<close> on an array: \<^verbatim>\<open>undefined\<close> (\<open>None\<close>) past the end.\<close>

definition at_index :: "'a list \<Rightarrow> nat \<Rightarrow> 'a option" where
  "at_index xs i = (if i < length xs then Some (xs ! i) else None)"

text \<open>
  The decimal text of an array index, and the index a property key denotes, when it is
  the canonical decimal text of one.
\<close>

fun digits_of :: "nat \<Rightarrow> string" where
  "digits_of n = (if n < 10 then [char_of (48 + n)] else digits_of (n div 10) @ [char_of (48 + n mod 10)])"

declare digits_of.simps [simp del]

definition index_of_key :: "string \<Rightarrow> nat option" where
  "index_of_key k =
     (if k \<noteq> [] \<and> list_all is_digit k \<and> (k = ''0'' \<or> hd k \<noteq> CHR ''0'') \<and> decimal_val k < 4294967295
      then Some (decimal_val k) else None)"

text \<open>
  The code points of a string (a lead byte with the continuation bytes after it), and
  its length in UTF-16 code units: a code point of four bytes takes two units.
\<close>

definition is_continuation :: "char \<Rightarrow> bool" where
  "is_continuation c = (128 \<le> code c \<and> code c < 192)"

function code_points :: "string \<Rightarrow> string list" where
  "code_points [] = []"
| "code_points (c # cs) = (c # takeWhile is_continuation cs) # code_points (dropWhile is_continuation cs)"
  by pat_completeness auto

termination code_points
  by (relation "measure length") (auto simp: less_Suc_eq_le length_dropWhile_le)

definition utf16_length :: "string \<Rightarrow> nat" where
  "utf16_length s = length (filter (\<lambda>c. \<not> is_continuation c) s) + length (filter (\<lambda>c. 240 \<le> code c) s)"

text \<open>
  The UTF-16 code units of a string, each as a string of one unit. A code point of up to
  three bytes is one unit. A code point of four bytes is a pair of surrogates; a
  surrogate on its own is written in the same three-byte form as the other units
  (\<open>1110xxxx 10xxxxxx 10xxxxxx\<close>).
\<close>

definition unit_bytes :: "nat \<Rightarrow> string" where
  "unit_bytes x = [char_of (224 + x div 4096), char_of (128 + (x div 64) mod 64), char_of (128 + x mod 64)]"

definition units_of_code_point :: "string \<Rightarrow> string list" where
  "units_of_code_point cp =
     (case cp of
        [b0, b1, b2, b3] \<Rightarrow>
          (let c = (code b0 mod 8) * 262144 + (code b1 mod 64) * 4096 + (code b2 mod 64) * 64
                   + code b3 mod 64 - 65536
           in [unit_bytes (55296 + c div 1024), unit_bytes (56320 + c mod 1024)])
      | _ \<Rightarrow> [cp])"

definition utf16_units :: "string \<Rightarrow> string list" where
  "utf16_units s = concat (map units_of_code_point (code_points s))"

subsection \<open>Base64 and UTF-8, as Node's Buffer implements them\<close>

text \<open>
  In this representation \<^verbatim>\<open>Buffer.from(s)\<close> is the string's own bytes.
  \<^verbatim>\<open>buf.toString("base64")\<close> is the standard encoding with padding.
\<close>

definition b64_char :: "nat \<Rightarrow> char" where
  "b64_char v =
     char_of (if v < 26 then v + 65 else if v < 52 then v + 71 else if v < 62 then v - 4
              else if v = 62 then 43 else (47 :: nat))"

fun b64_encode :: "string \<Rightarrow> string" where
  "b64_encode [] = []"
| "b64_encode [a] =
     [b64_char (code a div 4), b64_char ((code a mod 4) * 16), CHR ''='', CHR ''='']"
| "b64_encode [a, b] =
     [b64_char (code a div 4), b64_char ((code a mod 4) * 16 + code b div 16),
      b64_char ((code b mod 16) * 4), CHR ''='']"
| "b64_encode (a # b # c # rest) =
     [b64_char (code a div 4), b64_char ((code a mod 4) * 16 + code b div 16),
      b64_char ((code b mod 16) * 4 + code c div 64), b64_char (code c mod 64)]
     @ b64_encode rest"

text \<open>
  \<^verbatim>\<open>Buffer.from(s, "base64")\<close> is lenient and never throws: it reads the standard and
  the URL-safe alphabet, skips every other character, stops at the first \<^verbatim>\<open>=\<close>, and
  decodes what it has read (a last group of two or three characters gives one or two
  bytes, a single left-over character gives none).
\<close>

definition b64_value :: "char \<Rightarrow> nat option" where
  "b64_value c =
     (let n = code c in
      if 65 \<le> n \<and> n \<le> 90 then Some (n - 65)
      else if 97 \<le> n \<and> n \<le> 122 then Some (n - 71)
      else if 48 \<le> n \<and> n \<le> 57 then Some (n + 4)
      else if n = 43 \<or> n = 45 then Some 62
      else if n = 47 \<or> n = 95 then Some 63
      else None)"

fun b64_sextets :: "string \<Rightarrow> nat list" where
  "b64_sextets [] = []"
| "b64_sextets (c # cs) =
     (if c = CHR ''='' then []
      else (case b64_value c of
              None \<Rightarrow> b64_sextets cs
            | Some v \<Rightarrow> v # b64_sextets cs))"

fun b64_bytes :: "nat list \<Rightarrow> string" where
  "b64_bytes (a # b # c # d # rest) =
     [char_of (a * 4 + b div 16), char_of ((b mod 16) * 16 + c div 4), char_of ((c mod 4) * 64 + d)]
     @ b64_bytes rest"
| "b64_bytes [a, b, c] = [char_of (a * 4 + b div 16), char_of ((b mod 16) * 16 + c div 4)]"
| "b64_bytes [a, b] = [char_of (a * 4 + b div 16)]"
| "b64_bytes _ = []"

definition b64_decode :: "string \<Rightarrow> string" where
  "b64_decode s = b64_bytes (b64_sextets s)"

text \<open>
  \<^verbatim>\<open>buf.toString()\<close> decodes UTF-8: a well-formed sequence is kept, and each maximal
  ill-formed run of bytes becomes U+FFFD (the bytes EF BF BD).
\<close>

definition replacement :: string where
  "replacement = [char_of (239 :: nat), char_of (191 :: nat), char_of (189 :: nat)]"

definition in_range :: "nat \<Rightarrow> nat \<Rightarrow> char \<Rightarrow> bool" where
  "in_range lo hi c = (lo \<le> code c \<and> code c \<le> hi)"

text \<open>The range of the byte that may follow the lead byte \<open>c\<close> of a longer sequence.\<close>

definition second_range :: "char \<Rightarrow> nat \<times> nat" where
  "second_range c =
     (let n = code c in
      if n = 224 then (160, 191) else if n = 237 then (128, 159)
      else if n = 240 then (144, 191) else if n = 244 then (128, 143)
      else (128, 191))"

text \<open>How many bytes the sequence led by \<open>c\<close> has; 0 when \<open>c\<close> cannot lead one.\<close>

definition sequence_length :: "char \<Rightarrow> nat" where
  "sequence_length c =
     (let n = code c in
      if n < 128 then 1 else if 194 \<le> n \<and> n \<le> 223 then 2
      else if 224 \<le> n \<and> n \<le> 239 then 3 else if 240 \<le> n \<and> n \<le> 244 then 4 else 0)"

fun utf8_toString :: "string \<Rightarrow> string" where
  "utf8_toString [] = []"
| "utf8_toString (c # cs) =
     (let n = sequence_length c; (lo, hi) = second_range c in
      if n = 1 then c # utf8_toString cs
      else if n = 0 then replacement @ utf8_toString cs
      else (case cs of
              [] \<Rightarrow> replacement
            | c1 # cs1 \<Rightarrow>
                if \<not> in_range lo hi c1 then replacement @ utf8_toString cs
                else if n = 2 then c # c1 # utf8_toString cs1
                else (case cs1 of
                        [] \<Rightarrow> replacement
                      | c2 # cs2 \<Rightarrow>
                          if \<not> in_range 128 191 c2 then replacement @ utf8_toString cs1
                          else if n = 3 then c # c1 # c2 # utf8_toString cs2
                          else (case cs2 of
                                  [] \<Rightarrow> replacement
                                | c3 # cs3 \<Rightarrow>
                                    if \<not> in_range 128 191 c3 then replacement @ utf8_toString cs2
                                    else c # c1 # c2 # c3 # utf8_toString cs3))))"

subsection \<open>Values, objects and arrays\<close>

text \<open>
  A value of a parsed JSON body or of a response. An object is the list of its own
  properties in order, each key once (what \<^verbatim>\<open>JSON.parse\<close> builds). An array has no
  holes; a slot that the source leaves empty holds \<open>JUndefined\<close>, which reads back and
  serialises as a hole does.
\<close>

datatype jsval =
    JUndefined
  | JNull
  | JBool bool
  | JNum jsnum
  | JStr string
  | JArr "jsval list"
  | JObj "(string \<times> jsval) list"

fun truthy :: "jsval \<Rightarrow> bool" where
  "truthy JUndefined = False"
| "truthy JNull = False"
| "truthy (JBool b) = b"
| "truthy (JNum n) = num_truthy n"
| "truthy (JStr s) = (s \<noteq> [])"
| "truthy (JArr _) = True"
| "truthy (JObj _) = True"

text \<open>\<^verbatim>\<open>===\<close> on two numbers: NaN equals nothing, the two zeros are equal.\<close>

fun num_eq :: "jsnum \<Rightarrow> jsnum \<Rightarrow> bool" where
  "num_eq NaN _ = False"
| "num_eq _ NaN = False"
| "num_eq (Finite s m e) (Finite s' m' e') = (m = m' \<and> e = e' \<and> (s = s' \<or> m = 0))"
| "num_eq a b = (a = b)"

text \<open>
  \<^verbatim>\<open>===\<close> between a value of the request and a value read from a sheet or from the
  environment. Two arrays or objects are equal only when they are the same object, which
  values of different origin never are.
\<close>

fun strict_eq :: "jsval \<Rightarrow> jsval \<Rightarrow> bool" where
  "strict_eq JUndefined JUndefined = True"
| "strict_eq JNull JNull = True"
| "strict_eq (JBool a) (JBool b) = (a = b)"
| "strict_eq (JNum a) (JNum b) = num_eq a b"
| "strict_eq (JStr a) (JStr b) = (a = b)"
| "strict_eq _ _ = False"

text \<open>A string or \<^verbatim>\<open>undefined\<close> (a cell of a row, a variable of the environment) as a value.\<close>

definition of_cell :: "string option \<Rightarrow> jsval" where
  "of_cell c = (case c of None \<Rightarrow> JUndefined | Some s \<Rightarrow> JStr s)"

text \<open>An own property of an object; \<^verbatim>\<open>undefined\<close> when the object has no such key.\<close>

definition get_field :: "(string \<times> jsval) list \<Rightarrow> string \<Rightarrow> jsval" where
  "get_field kvs k = (case map_of kvs k of None \<Rightarrow> JUndefined | Some v \<Rightarrow> v)"

text \<open>\<^verbatim>\<open>{...obj, k: v}\<close>: the key keeps its place when the object has it, else it is added last.\<close>

fun put_field :: "string \<Rightarrow> jsval \<Rightarrow> (string \<times> jsval) list \<Rightarrow> (string \<times> jsval) list" where
  "put_field k v [] = [(k, v)]"
| "put_field k v (p # ps) = (if fst p = k then (k, v) # ps else p # put_field k v ps)"

text \<open>
  \<^verbatim>\<open>v[k]\<close> and \<^verbatim>\<open>v.k\<close> for the keys the handlers read (none of them is a property of
  a prototype but \<^verbatim>\<open>length\<close>): a TypeError (\<open>None\<close>) on \<^verbatim>\<open>null\<close> and
  \<^verbatim>\<open>undefined\<close>. A string is indexed by UTF-16 code unit.
\<close>

fun get_member :: "jsval \<Rightarrow> string \<Rightarrow> jsval option" where
  "get_member JUndefined k = None"
| "get_member JNull k = None"
| "get_member (JBool _) k = Some JUndefined"
| "get_member (JNum _) k = Some JUndefined"
| "get_member (JObj kvs) k = Some (get_field kvs k)"
| "get_member (JArr xs) k =
     Some (if k = ''length'' then JNum (num_of_nat (length xs))
           else (case index_of_key k of
                   None \<Rightarrow> JUndefined
                 | Some i \<Rightarrow> (case at_index xs i of None \<Rightarrow> JUndefined | Some v \<Rightarrow> v)))"
| "get_member (JStr s) k =
     Some (if k = ''length'' then JNum (num_of_nat (utf16_length s))
           else (case index_of_key k of
                   None \<Rightarrow> JUndefined
                 | Some i \<Rightarrow> (case at_index (utf16_units s) i of None \<Rightarrow> JUndefined | Some u \<Rightarrow> JStr u)))"

text \<open>
  \<^verbatim>\<open>Object.keys(v)\<close>: a TypeError (\<open>None\<close>) on \<^verbatim>\<open>null\<close> and \<^verbatim>\<open>undefined\<close>; the
  indices of an array or string; the keys of an object, those that are array indices
  first in ascending order, then the others in the order of insertion.
\<close>

definition is_index_key :: "string \<Rightarrow> bool" where
  "is_index_key k = (index_of_key k \<noteq> None)"

fun own_keys :: "jsval \<Rightarrow> string list option" where
  "own_keys JUndefined = None"
| "own_keys JNull = None"
| "own_keys (JBool _) = Some []"
| "own_keys (JNum _) = Some []"
| "own_keys (JStr s) = Some (map digits_of [0 ..< utf16_length s])"
| "own_keys (JArr xs) = Some (map digits_of [0 ..< length xs])"
| "own_keys (JObj kvs) =
     Some (sort_key decimal_val (filter is_index_key (map fst kvs))
           @ filter (\<lambda>k. \<not> is_index_key k) (map fst kvs))"

text \<open>\<^verbatim>\<open>[...v]\<close>: the elements of an array, the code points of a string; a TypeError otherwise.\<close>

fun spread :: "jsval \<Rightarrow> jsval list option" where
  "spread (JArr xs) = Some xs"
| "spread (JStr s) = Some (map JStr (code_points s))"
| "spread _ = None"

text \<open>\<^verbatim>\<open>Array.isArray(v)\<close>, and the elements of an array.\<close>

fun is_array :: "jsval \<Rightarrow> bool" where
  "is_array (JArr _) = True"
| "is_array _ = False"

fun elements :: "jsval \<Rightarrow> jsval list" where
  "elements (JArr xs) = xs"
| "elements _ = []"

text \<open>
  The text a template literal interpolates for a value. The handlers interpolate only
  values that are strings or \<^verbatim>\<open>undefined\<close>; the texts of numbers, arrays and objects
  are not modelled.
\<close>

fun template_text :: "jsval \<Rightarrow> string" where
  "template_text (JStr s) = s"
| "template_text JUndefined = ''undefined''"
| "template_text JNull = ''null''"
| "template_text (JBool b) = (if b then ''true'' else ''false'')"
| "template_text _ = []"

section \<open>The spreadsheet client and the responses\<close>

text \<open>
  The three spreadsheets are named by the environment variables that hold their ids:
  \<^verbatim>\<open>PRODUCTS_SHEET_ID\<close>, \<^verbatim>\<open>ORDER_LINKS_SHEET_ID\<close> and \<^verbatim>\<open>GOOGLE_SHEETS_ID\<close>.
  A call of the Sheets client is recorded with its spreadsheet, its range and the rows
  it sends. A handler is given the outcome of each call it awaits: \<open>Inl m\<close> when the
  promise rejects with an error of message \<open>m\<close>, \<open>Inr x\<close> when it resolves. A
  \<^verbatim>\<open>values.get\<close> resolves to rows of strings (\<^verbatim>\<open>response.data.values || []\<close>).
\<close>

datatype spreadsheet = ProductsSheet | OrderLinksSheet | OrdersSheet

datatype sheets_call =
    SpreadsheetsGet spreadsheet
  | AddSheet spreadsheet string
  | ValuesGet spreadsheet string
  | ValuesAppend spreadsheet string "jsval list"
  | ValuesClear spreadsheet string
  | ValuesUpdate spreadsheet string "jsval list"

type_synonym 'a outcome = "string + 'a"

type_synonym row = "string list"

type_synonym table = "row list"

text \<open>A response: the status and the value handed to \<^verbatim>\<open>res.json\<close>.\<close>

record response =
  status :: nat
  json :: jsval

definition ok :: "(string \<times> jsval) list \<Rightarrow> response" where
  "ok kvs = \<lparr>status = 200, json = JObj kvs\<rparr>"

definition failure :: "nat \<Rightarrow> string \<Rightarrow> response" where
  "failure st msg = \<lparr>status = st, json = JObj [(''success'', JBool False), (''message'', JStr msg)]\<rparr>"

definition server_error :: "string \<Rightarrow> string \<Rightarrow> response" where
  "server_error msg err =
     \<lparr>status = 500,
      json = JObj [(''success'', JBool False), (''message'', JStr msg), (''error'', JStr err)]\<rparr>"

text \<open>Reading a property of a response's value (\<^verbatim>\<open>undefined\<close> where there is none).\<close>

definition field :: "jsval \<Rightarrow> string \<Rightarrow> jsval" where
  "field v k = (case v of JObj kvs \<Rightarrow> get_field kvs k | _ \<Rightarrow> JUndefined)"

section \<open>Authentication\<close>

text \<open>
  The configured credentials: \<^verbatim>\<open>process.env.ADMIN_USERNAME\<close> and
  \<^verbatim>\<open>process.env.ADMIN_PASSWORD\<close>, each a string or \<^verbatim>\<open>undefined\<close> (\<open>None\<close>) when unset.
\<close>

record config =
  admin_username :: "string option"
  admin_password :: "string option"

text \<open>
  \<^verbatim>\<open>POST /api/admin/login\<close>. The handler makes no spreadsheet call. The token is the
  Base64 text of \<^verbatim>\<open>`${username}:${password}`\<close>.
\<close>

definition admin_login :: "config \<Rightarrow> (string \<times> jsval) list \<Rightarrow> response" where
  "admin_login cfg body =
     (let username = get_field body ''username'';
          password = get_field body ''password''
      in if strict_eq username (of_cell (admin_username cfg))
            \<and> strict_eq password (of_cell (admin_password cfg))
         then ok [(''success'', JBool True),
                  (''token'', JStr (b64_encode (template_text username @ '':'' @ template_text password)))]
         else failure 401 ''Invalid credentials'')"

text \<open>
  The middleware \<^verbatim>\<open>authenticateAdmin\<close> reads \<^verbatim>\<open>req.headers.authorization\<close> (a string
  or \<^verbatim>\<open>undefined\<close>). It either calls \<^verbatim>\<open>next()\<close> or sends a 401. The \<^verbatim>\<open>catch\<close>
  answers a token that is \<^verbatim>\<open>undefined\<close>, on which \<^verbatim>\<open>Buffer.from\<close> throws.
\<close>

datatype middleware = Next | Respond response

definition authenticateAdmin :: "config \<Rightarrow> string option \<Rightarrow> middleware" where
  "authenticateAdmin cfg authHeader =
     (case authHeader of
        None \<Rightarrow> Respond (failure 401 ''No authentication token provided'')
      | Some h \<Rightarrow>
          if h = [] \<or> \<not> prefix ''Bearer '' h
          then Respond (failure 401 ''No authentication token provided'')
          else (case at_index (split_at CHR '' '' h) 1 of
                  None \<Rightarrow> Respond (failure 401 ''Invalid authentication token'')
                | Some token \<Rightarrow>
                    (let parts = split_at CHR '':'' (utf8_toString (b64_decode token));
                         username = at_index parts 0;
                         password = at_index parts 1
                     in if username = admin_username cfg \<and> password = admin_password cfg
                        then Next
                        else Respond (failure 401 ''Invalid credentials''))))"

section \<open>Products\<close>

text \<open>The record of a product in the list of \<^verbatim>\<open>GET /api/products\<close>.\<close>

definition product_summary :: "row \<Rightarrow> (string \<times> jsval) list" where
  "product_summary row =
     [(''id'', of_cell (at_index row 0)),
      (''name'', of_cell (at_index row 1)),
      (''description'', of_cell (at_index row 2)),
      (''price'', JNum (parseFloat (at_index row 12)))]"

text \<open>
  The record of a product in \<^verbatim>\<open>GET /api/product/:productId\<close> and in the products map
  of \<^verbatim>\<open>GET /api/order-link/:linkId\<close>.
\<close>

definition product_details :: "row \<Rightarrow> (string \<times> jsval) list" where
  "product_details row =
     [(''id'', of_cell (at_index row 0)),
      (''name'', of_cell (at_index row 1)),
      (''description'', of_cell (at_index row 2)),
      (''price'', JNum (parseFloat (at_index row 12))),
      (''SKU'', of_cell (at_index row 31)),
      (''weight'', of_cell (at_index row 22)),
      (''length'', of_cell (at_index row 33)),
      (''breadth'', of_cell (at_index row 34)),
      (''height'', of_cell (at_index row 32)),
      (''colors'', of_cell (at_index row 30))]"

definition products_range :: string where
  "products_range = ''Sheet1!A3:AI''"

text \<open>\<^verbatim>\<open>GET /api/products\<close>, behind \<^verbatim>\<open>authenticateAdmin\<close>.\<close>

definition get_products ::
  "config \<Rightarrow> string option \<Rightarrow> table outcome \<Rightarrow> response \<times> sheets_call list" where
  "get_products cfg authHeader valuesGet =
     (case authenticateAdmin cfg authHeader of
        Respond r \<Rightarrow> (r, [])
      | Next \<Rightarrow>
          (case valuesGet of
             Inl e \<Rightarrow>
               (server_error ''Error fetching products'' e, [ValuesGet ProductsSheet products_range])
           | Inr rows \<Rightarrow>
               (ok [(''success'', JBool True), (''data'', JArr (map (\<lambda>row. JObj (product_summary row)) rows))],
                [ValuesGet ProductsSheet products_range])))"

text \<open>
  \<^verbatim>\<open>GET /api/product/:productId\<close>: the first row whose first cell is the id. The
  message of a 500 is chosen by the text of the error.
\<close>

definition product_error_message :: "string \<Rightarrow> string" where
  "product_error_message e =
     (if includes_str e ''Unable to parse range''
      then ''Sheet configuration error. Please verify the sheet name and column range.''
      else if includes_str e ''Requested entity was not found''
      then ''Spreadsheet not found. Please verify the PRODUCTS_SHEET_ID in .env file.''
      else if includes_str e ''The caller does not have permission''
      then ''Access denied. Please share the spreadsheet with the service account email.''
      else ''Error fetching product data'')"

definition get_product ::
  "string \<Rightarrow> unit outcome \<Rightarrow> table outcome \<Rightarrow> response \<times> sheets_call list" where
  "get_product productId spreadsheetGet valuesGet =
     (case spreadsheetGet of
        Inl e \<Rightarrow> (server_error (product_error_message e) e, [SpreadsheetsGet ProductsSheet])
      | Inr _ \<Rightarrow>
          (case valuesGet of
             Inl e \<Rightarrow>
               (server_error (product_error_message e) e,
                [SpreadsheetsGet ProductsSheet, ValuesGet ProductsSheet products_range])
           | Inr rows \<Rightarrow>
               (case find (\<lambda>row. at_index row 0 = Some productId) rows of
                  None \<Rightarrow>
                    (failure 404 ''Product not found'',
                     [SpreadsheetsGet ProductsSheet, ValuesGet ProductsSheet products_range])
                | Some product \<Rightarrow>
                    (ok [(''success'', JBool True), (''data'', JObj (product_details product))],
                     [SpreadsheetsGet ProductsSheet, ValuesGet ProductsSheet products_range]))))"

section \<open>Order links\<close>

subsection \<open>\<^verbatim>\<open>POST /api/generate-link\<close>\<close>

text \<open>
  The link id (\<^verbatim>\<open>crypto.randomBytes(8).toString("hex")\<close>) and the timestamp
  (\<^verbatim>\<open>new Date().toISOString()\<close>) are inputs of the model.

  The inner \<^verbatim>\<open>try\<close> looks for a sheet titled \<^verbatim>\<open>OrderLinks\<close> among the titles of the
  spreadsheet, and creates it with its header row when there is none; any failure there
  is rethrown with a fixed message.
\<close>

definition header_row :: jsval where
  "header_row = JArr [JStr ''Link ID'', JStr ''Product ID'', JStr ''Quantity'', JStr ''Timestamp'']"

definition setup_failed :: string where
  "setup_failed = ''Failed to setup OrderLinks sheet''"

definition ensure_order_links ::
  "string list outcome \<Rightarrow> unit outcome \<Rightarrow> unit outcome \<Rightarrow> unit outcome \<times> sheets_call list" where
  "ensure_order_links spreadsheetGet addSheet headerAppend =
     (case spreadsheetGet of
        Inl e \<Rightarrow> (Inl setup_failed, [SpreadsheetsGet OrderLinksSheet])
      | Inr titles \<Rightarrow>
          if find (\<lambda>title. title = ''OrderLinks'') titles \<noteq> None
          then (Inr (), [SpreadsheetsGet OrderLinksSheet])
          else (case addSheet of
                  Inl e \<Rightarrow>
                    (Inl setup_failed,
                     [SpreadsheetsGet OrderLinksSheet, AddSheet OrderLinksSheet ''OrderLinks''])
                | Inr _ \<Rightarrow>
                    (case headerAppend of
                       Inl e \<Rightarrow>
                         (Inl setup_failed,
                          [SpreadsheetsGet OrderLinksSheet, AddSheet OrderLinksSheet ''OrderLinks'',
                           ValuesAppend OrderLinksSheet ''OrderLinks!A1:D1'' [header_row]])
                     | Inr _ \<Rightarrow>
                         (Inr (),
                          [SpreadsheetsGet OrderLinksSheet, AddSheet OrderLinksSheet ''OrderLinks'',
                           ValuesAppend OrderLinksSheet ''OrderLinks!A1:D1'' [header_row]]))))"

text \<open>
  \<^verbatim>\<open>products.map(({ productId, quantity }) => [linkId, productId, quantity, timestamp])\<close>:
  destructuring an element that is \<^verbatim>\<open>null\<close> throws a TypeError, which ends the map.
\<close>

definition destructure_failed :: string where
  "destructure_failed = ''Cannot destructure property 'productId' of 'object null' as it is null.''"

fun link_rows :: "string \<Rightarrow> string \<Rightarrow> jsval list \<Rightarrow> string + jsval list" where
  "link_rows linkId timestamp [] = Inr []"
| "link_rows linkId timestamp (p # ps) =
     (case (get_member p ''productId'', get_member p ''quantity'') of
        (Some productId, Some quantity) \<Rightarrow>
          (case link_rows linkId timestamp ps of
             Inl e \<Rightarrow> Inl e
           | Inr rows \<Rightarrow> Inr (JArr [JStr linkId, productId, quantity, JStr timestamp] # rows))
      | _ \<Rightarrow> Inl destructure_failed)"

definition generate_link ::
  "string \<Rightarrow> string \<Rightarrow> (string \<times> jsval) list \<Rightarrow>
   string list outcome \<Rightarrow> unit outcome \<Rightarrow> unit outcome \<Rightarrow> unit outcome \<Rightarrow>
   response \<times> sheets_call list" where
  "generate_link linkId timestamp body spreadsheetGet addSheet headerAppend rowsAppend =
     (let products = get_field body ''products'' in
      if \<not> truthy products \<or> \<not> is_array products \<or> length (elements products) = 0
      then (failure 400 ''At least one product is required'', [])
      else
        (case ensure_order_links spreadsheetGet addSheet headerAppend of
           (Inl e, calls) \<Rightarrow> (server_error ''Error generating link'' e, calls)
         | (Inr _, calls) \<Rightarrow>
             (case link_rows linkId timestamp (elements products) of
                Inl e \<Rightarrow> (server_error ''Error generating link'' e, calls)
              | Inr rows \<Rightarrow>
                  (case rowsAppend of
                     Inl e \<Rightarrow>
                       (server_error ''Error generating link'' e,
                        calls @ [ValuesAppend OrderLinksSheet ''OrderLinks!A:D'' rows])
                   | Inr _ \<Rightarrow>
                       (ok [(''success'', JBool True), (''linkId'', JStr linkId),
                            (''message'', JStr ''Link generated successfully'')],
                        calls @ [ValuesAppend OrderLinksSheet ''OrderLinks!A:D'' rows])))))"

subsection \<open>\<^verbatim>\<open>GET /api/order-link/:linkId\<close>\<close>

definition order_links_range :: string where
  "order_links_range = ''OrderLinks!A:E''"

text \<open>
  The payment status as the source computes it, before it looks at the number of
  matching rows. With no matching row the expression is
  \<^verbatim>\<open>orderLinks[4] | "pending"\<close>, the bitwise or of \<^verbatim>\<open>undefined\<close> and a string that is
  not a number: both operands convert to the integer 0, and the value is the number 0.
\<close>

definition bitor_fallback :: jsval where
  "bitor_fallback = JNum js_zero"

definition payment_status :: "row list \<Rightarrow> jsval" where
  "payment_status orderLinks =
     (if length orderLinks > 0
      then (let c = of_cell (at_index (hd orderLinks) 4) in if truthy c then c else JStr ''pending'')
      else bitor_fallback)"

text \<open>
  \<^verbatim>\<open>new Map(productRows.map((row) => [row[0], {...}]))\<close>: of two rows with the same
  first cell the later one is kept, so a key is looked up from the last row backwards.
\<close>

definition products_map :: "table \<Rightarrow> string option \<Rightarrow> (string \<times> jsval) list option" where
  "products_map productRows = map_of (rev (map (\<lambda>row. (at_index row 0, product_details row)) productRows))"

text \<open>
  One order line: the product of the row's second cell with the parsed quantity added;
  a missing product throws.
\<close>

fun order_products ::
  "(string option \<Rightarrow> (string \<times> jsval) list option) \<Rightarrow> row list \<Rightarrow> string + jsval list" where
  "order_products productsMap [] = Inr []"
| "order_products productsMap (link # links) =
     (case productsMap (at_index link 1) of
        None \<Rightarrow> Inl (''Product not found: '' @ template_text (of_cell (at_index link 1)))
      | Some product \<Rightarrow>
          (case order_products productsMap links of
             Inl e \<Rightarrow> Inl e
           | Inr items \<Rightarrow>
               Inr (JObj (put_field ''quantity'' (JNum (parseInt (at_index link 2))) product) # items)))"

text \<open>
  The operands of \<^verbatim>\<open>item.price * item.quantity\<close>: both properties hold numbers (the
  results of \<^verbatim>\<open>parseFloat\<close> and \<^verbatim>\<open>parseInt\<close>), see \<open>order_products_numbers\<close> below.
\<close>

fun number_of :: "jsval \<Rightarrow> jsnum" where
  "number_of (JNum n) = n"
| "number_of _ = NaN"

definition total_amount :: "jsval list \<Rightarrow> jsnum" where
  "total_amount orderProducts =
     foldl (\<lambda>sum item. js_add sum (js_mul (number_of (field item ''price'')) (number_of (field item ''quantity''))))
       js_zero orderProducts"

definition get_order_link ::
  "string \<Rightarrow> table outcome \<Rightarrow> table outcome \<Rightarrow> response \<times> sheets_call list" where
  "get_order_link linkId linkGet productGet =
     (case linkGet of
        Inl e \<Rightarrow>
          (server_error ''Error fetching order details'' e, [ValuesGet OrderLinksSheet order_links_range])
      | Inr linkRows \<Rightarrow>
          (let orderLinks = filter (\<lambda>row. at_index row 0 = Some linkId) linkRows;
               paymentStatus = payment_status orderLinks
           in if length orderLinks = 0
              then (failure 404 ''Order link not found'', [ValuesGet OrderLinksSheet order_links_range])
              else
                (case productGet of
                   Inl e \<Rightarrow>
                     (server_error ''Error fetching order details'' e,
                      [ValuesGet OrderLinksSheet order_links_range, ValuesGet ProductsSheet products_range])
                 | Inr productRows \<Rightarrow>
                     (case order_products (products_map productRows) orderLinks of
                        Inl e \<Rightarrow>
                          (server_error ''Error fetching order details'' e,
                           [ValuesGet OrderLinksSheet order_links_range, ValuesGet ProductsSheet products_range])
                      | Inr orderProducts \<Rightarrow>
                          (ok [(''success'', JBool True),
                               (''data'', JObj [(''linkId'', JStr linkId),
                                                (''paymentStatus'', paymentStatus),
                                                (''products'', JArr orderProducts),
                                                (''totalAmount'', JNum (total_amount orderProducts))])],
                           [ValuesGet OrderLinksSheet order_links_range, ValuesGet ProductsSheet products_range])))))"

subsection \<open>\<^verbatim>\<open>PUT /api/update-payment-status\<close>\<close>

text \<open>
  \<^verbatim>\<open>row[i] = v\<close> on an array: an index past the end extends the array, and the slots
  between are empty.
\<close>

definition set_index :: "jsval list \<Rightarrow> nat \<Rightarrow> jsval \<Rightarrow> jsval list" where
  "set_index xs i v =
     (if i < length xs then xs[i := v]
      else xs @ replicate (i - length xs) JUndefined @ [v])"

definition update_row :: "jsval \<Rightarrow> jsval \<Rightarrow> row \<Rightarrow> jsval list" where
  "update_row linkId paymentStatus row =
     (if strict_eq (of_cell (at_index row 0)) linkId
      then set_index (map JStr row) 4 paymentStatus
      else map JStr row)"

definition updated_rows :: "jsval \<Rightarrow> jsval \<Rightarrow> table \<Rightarrow> jsval list list" where
  "updated_rows linkId paymentStatus rows = map (update_row linkId paymentStatus) rows"

definition update_payment_status ::
  "(string \<times> jsval) list \<Rightarrow> table outcome \<Rightarrow> unit outcome \<Rightarrow> unit outcome \<Rightarrow>
   response \<times> sheets_call list" where
  "update_payment_status body valuesGet valuesClear valuesUpdate =
     (let linkId = get_field body ''linkId'';
          paymentStatus = get_field body ''paymentStatus''
      in if \<not> truthy linkId \<or> \<not> truthy paymentStatus
         then (failure 400 ''linkId and paymentStatus are required'', [])
         else
           (case valuesGet of
              Inl e \<Rightarrow>
                (server_error ''Error updating payment status'' e,
                 [ValuesGet OrderLinksSheet order_links_range])
            | Inr rows \<Rightarrow>
                (let updatedRows = map JArr (updated_rows linkId paymentStatus rows) in
                 case valuesClear of
                   Inl e \<Rightarrow>
                     (server_error ''Error updating payment status'' e,
                      [ValuesGet OrderLinksSheet order_links_range,
                       ValuesClear OrderLinksSheet order_links_range])
                 | Inr _ \<Rightarrow>
                     (case valuesUpdate of
                        Inl e \<Rightarrow>
                          (server_error ''Error updating payment status'' e,
                           [ValuesGet OrderLinksSheet order_links_range,
                            ValuesClear OrderLinksSheet order_links_range,
                            ValuesUpdate OrderLinksSheet order_links_range updatedRows])
                      | Inr _ \<Rightarrow>
                          (ok [(''success'', JBool True),
                               (''message'', JStr ''Payment status updated successfully'')],
                           [ValuesGet OrderLinksSheet order_links_range,
                            ValuesClear OrderLinksSheet order_links_range,
                            ValuesUpdate OrderLinksSheet order_links_range updatedRows])))))"

section \<open>Orders\<close>

subsection \<open>\<^verbatim>\<open>GET /api/order/:orderId\<close>\<close>

definition orders_range :: string where
  "orders_range = ''Sheet1!A:AF''"

definition order_data :: "row \<Rightarrow> (string \<times> jsval) list" where
  "order_data orderRow =
     [(''orderId'', of_cell (at_index orderRow 0)),
      (''pickUpCode'', of_cell (at_index orderRow 1)),
      (''phoneNumber'', of_cell (at_index orderRow 2)),
      (''firstName'', of_cell (at_index orderRow 3)),
      (''lastName'', of_cell (at_index orderRow 4)),
      (''email'', of_cell (at_index orderRow 5)),
      (''shippingAddress'',
         JObj [(''addressLine1'', of_cell (at_index orderRow 6)),
               (''addressLine2'', of_cell (at_index orderRow 7)),
               (''pincode'', of_cell (at_index orderRow 8)),
               (''city'', of_cell (at_index orderRow 9)),
               (''state'', of_cell (at_index orderRow 10)),
               (''country'', of_cell (at_index orderRow 11))]),
      (''billingAddress'',
         JObj [(''addressLine1'', of_cell (at_index orderRow 12)),
               (''addressLine2'', of_cell (at_index orderRow 13)),
               (''pincode'', of_cell (at_index orderRow 14)),
               (''city'', of_cell (at_index orderRow 15)),
               (''state'', of_cell (at_index orderRow 16)),
               (''country'', of_cell (at_index orderRow 17))]),
      (''product'',
         JObj [(''name'', of_cell (at_index orderRow 18)),
               (''unitPrice'', JNum (or_zero (parseFloat (at_index orderRow 19)))),
               (''quantity'', JNum (or_zero (parseInt (at_index orderRow 20)))),
               (''SKU'', of_cell (at_index orderRow 21))]),
      (''payment'',
         JObj [(''method'', of_cell (at_index orderRow 22)),
               (''COD'', of_cell (at_index orderRow 23)),
               (''totalAmount'', JNum (or_zero (parseFloat (at_index orderRow 24)))),
               (''paymentId'', of_cell (at_index orderRow 30))]),
      (''shipping'',
         JObj [(''weight'', JNum (or_zero (parseFloat (at_index orderRow 25)))),
               (''dimensions'',
                  JObj [(''length'', JNum (or_zero (parseFloat (at_index orderRow 26)))),
                        (''breadth'', JNum (or_zero (parseFloat (at_index orderRow 27)))),
                        (''height'', JNum (or_zero (parseFloat (at_index orderRow 28))))]),
               (''courierId'', of_cell (at_index orderRow 29))]),
      (''isMultipleProductOrder'', of_cell (at_index orderRow 31)),
      (''timestamp'', of_cell (at_index orderRow 32))]"

definition get_order :: "string \<Rightarrow> table outcome \<Rightarrow> response \<times> sheets_call list" where
  "get_order orderId valuesGet =
     (case valuesGet of
        Inl e \<Rightarrow> (server_error ''Error fetching order details'' e, [ValuesGet OrdersSheet orders_range])
      | Inr rows \<Rightarrow>
          (case find (\<lambda>row. at_index row 0 = Some orderId) rows of
             None \<Rightarrow> (failure 404 ''Order not found'', [ValuesGet OrdersSheet orders_range])
           | Some orderRow \<Rightarrow>
               (ok [(''success'', JBool True), (''data'', JObj (order_data orderRow))],
                [ValuesGet OrdersSheet orders_range])))"

subsection \<open>\<^verbatim>\<open>POST /api/saveToSheet\<close>\<close>

text \<open>
  \<^verbatim>\<open>products?.length > 0\<close>. The optional chain stops at \<^verbatim>\<open>null\<close> and
  \<^verbatim>\<open>undefined\<close>; a boolean or a number has no \<^verbatim>\<open>length\<close>. For an object that is not
  an array the test compares its own \<^verbatim>\<open>length\<close> property with 0 under JavaScript's
  conversion to a number, which is taken as the parameter \<open>gt0\<close>.
\<close>

definition length_positive :: "(jsval \<Rightarrow> bool) \<Rightarrow> jsval \<Rightarrow> bool" where
  "length_positive gt0 products =
     (case products of
        JArr xs \<Rightarrow> length xs > 0
      | JStr s \<Rightarrow> utf16_length s > 0
      | JObj kvs \<Rightarrow> gt0 (get_field kvs ''length'')
      | _ \<Rightarrow> False)"

text \<open>A property of a value that is neither \<^verbatim>\<open>null\<close> nor \<^verbatim>\<open>undefined\<close>.\<close>

definition read_member :: "jsval \<Rightarrow> string \<Rightarrow> jsval" where
  "read_member v k = (case get_member v k of None \<Rightarrow> JUndefined | Some x \<Rightarrow> x)"

definition read_failed :: string where
  "read_failed = ''Cannot read properties of null (reading 'name')''"

text \<open>
  The row pushed for one product: 33 cells. Reading \<^verbatim>\<open>product.name\<close> of a product
  that is \<^verbatim>\<open>null\<close> throws a TypeError.
\<close>

definition order_row :: "(string \<times> jsval) list \<Rightarrow> jsval \<Rightarrow> string + jsval" where
  "order_row body product =
     (if get_member product ''name'' = None then Inl read_failed
      else Inr (JArr
        [get_field body ''orderId'',
         JStr ''13556454'',
         get_field body ''phoneNumber'',
         get_field body ''firstName'',
         get_field body ''lastName'',
         get_field body ''email'',
         get_field body ''shippingAddressLine1'',
         get_field body ''shippingAddressLine2'',
         get_field body ''shippingPincode'',
         get_field body ''shippingCity'',
         get_field body ''shippingState'',
         JStr ''India'',
         get_field body ''billingAddressLine1'',
         get_field body ''billingAddressLine2'',
         get_field body ''billingPincode'',
         get_field body ''billingCity'',
         get_field body ''billingState'',
         JStr ''India'',
         read_member product ''name'',
         read_member product ''price'',
         read_member product ''quantity'',
         read_member product ''SKU'',
         get_field body ''PaymentMethod'',
         get_field body ''COD'',
         get_field body ''totalAmount'',
         read_member product ''weight'',
         read_member product ''length'',
         read_member product ''breadth'',
         read_member product ''height'',
         JStr [],
         get_field body ''paymentId'',
         get_field body ''isThisMultipleProductOrder'',
         get_field body ''timestamp'']))"

fun order_rows :: "(string \<times> jsval) list \<Rightarrow> jsval list \<Rightarrow> string + jsval list" where
  "order_rows body [] = Inr []"
| "order_rows body (product # products) =
     (case order_row body product of
        Inl e \<Rightarrow> Inl e
      | Inr r \<Rightarrow>
          (case order_rows body products of
             Inl e \<Rightarrow> Inl e
           | Inr rs \<Rightarrow> Inr (r # rs)))"

text \<open>
  \<^verbatim>\<open>products?.length > 0 && products.forEach(...)\<close>: a value that passes the test and is
  not an array has no method \<^verbatim>\<open>forEach\<close>, and the call throws a TypeError.
\<close>

definition product_rows :: "(jsval \<Rightarrow> bool) \<Rightarrow> (string \<times> jsval) list \<Rightarrow> string + jsval list" where
  "product_rows gt0 body =
     (let products = get_field body ''products'' in
      if length_positive gt0 products
      then (if is_array products then order_rows body (elements products)
            else Inl ''products.forEach is not a function'')
      else Inr [])"

text \<open>
  The callbacks over \<^verbatim>\<open>Object.keys(customizationDetails)\<close> are asynchronous and not
  awaited: each starts its append before the response is sent, unless spreading its
  details throws, which rejects the callback's promise and nothing else.
\<close>

definition custom_appends :: "jsval \<Rightarrow> string list \<Rightarrow> sheets_call list" where
  "custom_appends customizationDetails keys =
     concat (map (\<lambda>key.
        (case spread (read_member customizationDetails key) of
           None \<Rightarrow> []
         | Some details \<Rightarrow> [ValuesAppend OrdersSheet (''Custom-'' @ key @ ''!A:Z'') details])) keys)"

definition keys_failed :: string where
  "keys_failed = ''Cannot convert undefined or null to object''"

definition access_failed :: string where
  "access_failed = ''Failed to access spreadsheet. Please verify sharing permissions.''"

definition save_to_sheet ::
  "(jsval \<Rightarrow> bool) \<Rightarrow> (string \<times> jsval) list \<Rightarrow> unit outcome \<Rightarrow> unit outcome \<Rightarrow>
   response \<times> sheets_call list" where
  "save_to_sheet gt0 body spreadsheetGet valuesAppend =
     (case spreadsheetGet of
        Inl e \<Rightarrow> (server_error ''Error saving data'' access_failed, [SpreadsheetsGet OrdersSheet])
      | Inr _ \<Rightarrow>
          (case product_rows gt0 body of
             Inl e \<Rightarrow> (server_error ''Error saving data'' e, [SpreadsheetsGet OrdersSheet])
           | Inr productRows \<Rightarrow>
               (case valuesAppend of
                  Inl e \<Rightarrow>
                    (server_error ''Error saving data'' e,
                     [SpreadsheetsGet OrdersSheet, ValuesAppend OrdersSheet orders_range productRows])
                | Inr _ \<Rightarrow>
                    (case own_keys (get_field body ''customizationDetails'') of
                       None \<Rightarrow>
                         (server_error ''Error saving data'' keys_failed,
                          [SpreadsheetsGet OrdersSheet, ValuesAppend OrdersSheet orders_range productRows])
                     | Some keys \<Rightarrow>
                         (ok [(''success'', JBool True), (''message'', JStr ''Data saved successfully'')],
                          [SpreadsheetsGet OrdersSheet, ValuesAppend OrdersSheet orders_range productRows]
                          @ (if length keys > 0
                             then custom_appends (get_field body ''customizationDetails'') keys
                             else []))))))"

section \<open>The total of an order link, as the specification words it\<close>

text \<open>
  The specification gives the total of an order link as the sum, over the rows of the
  link, of the price of the row's product (parsed as a float) times the row's quantity
  (parsed as an integer). The product of a row is the row of the Products table whose
  first cell is the row's product id; when several rows carry that id it is the last one,
  which is the one the map of the handler keeps. The sum is taken in the order of the
  sheet, starting from 0, with the addition and multiplication of doubles.
\<close>

definition product_row :: "table \<Rightarrow> string option \<Rightarrow> row option" where
  "product_row productRows productId = find (\<lambda>row. at_index row 0 = productId) (rev productRows)"

definition spec_line_amount :: "table \<Rightarrow> row \<Rightarrow> jsnum" where
  "spec_line_amount productRows link =
     (case product_row productRows (at_index link 1) of
        None \<Rightarrow> NaN
      | Some product \<Rightarrow> js_mul (parseFloat (at_index product 12)) (parseInt (at_index link 2)))"

definition spec_total_amount :: "string \<Rightarrow> table \<Rightarrow> table \<Rightarrow> jsnum" where
  "spec_total_amount linkId linkRows productRows =
     foldl js_add js_zero
       (map (spec_line_amount productRows) (filter (\<lambda>row. at_index row 0 = Some linkId) linkRows))"

section \<open>The rows of a link, read back\<close>

text \<open>
  The spreadsheet is not part of the program. For the property that relates
  \<^verbatim>\<open>generate-link\<close> to a later \<^verbatim>\<open>order-link\<close>, what a later read of the OrderLinks
  range finds of appended rows is modelled as follows: one row per appended row, with
  one cell per entered value, each cell the text \<open>shown v\<close> that the spreadsheet shows
  for the entered value \<open>v\<close>. The function \<open>shown\<close> is a parameter.
\<close>

definition appended_rows :: "(jsval \<Rightarrow> string) \<Rightarrow> jsval list \<Rightarrow> table" where
  "appended_rows shown rows = map (\<lambda>r. map shown (elements r)) rows"

section \<open>Properties\<close>

subsection \<open>generate-link without products\<close>

text \<open>
  C6. When the \<^verbatim>\<open>products\<close> field of the body of \<^verbatim>\<open>POST /api/generate-link\<close> is absent,
  is not an array, or is an empty array, the response is 400 with \<^verbatim>\<open>success: false\<close>, and
  the handler makes no spreadsheet call at all, whatever the spreadsheet would answer: no
  sheet is read, created, appended to or updated.
\<close>

theorem generate_link_without_products:
  assumes "map_of body ''products'' = None
           \<or> \<not> is_array (get_field body ''products'')
           \<or> get_field body ''products'' = JArr []"
  shows "generate_link linkId timestamp body spreadsheetGet addSheet headerAppend rowsAppend
           = (failure 400 ''At least one product is required'', [])
         \<and> status (fst (generate_link linkId timestamp body spreadsheetGet addSheet headerAppend rowsAppend))
             = 400
         \<and> field (json (fst (generate_link linkId timestamp body spreadsheetGet addSheet headerAppend
                                 rowsAppend))) ''success'' = JBool False
         \<and> snd (generate_link linkId timestamp body spreadsheetGet addSheet headerAppend rowsAppend) = []"
proof -
  have "\<not> truthy (get_field body ''products'') \<or> \<not> is_array (get_field body ''products'')
        \<or> length (elements (get_field body ''products'')) = 0"
    using assms by (auto simp: get_field_def)
  then have r: "generate_link linkId timestamp body spreadsheetGet addSheet headerAppend rowsAppend
                  = (failure 400 ''At least one product is required'', [])"
    by (auto simp: generate_link_def Let_def)
  show ?thesis
    by (simp add: r) (simp add: failure_def field_def get_field_def)
qed

theorem generate_link_without_products_witness:
  "(map_of ([] :: (string \<times> jsval) list) ''products'' = None
    \<and> generate_link ''00ff00ff00ff00ff'' ''2024-01-01T00:00:00.000Z'' [] (Inr []) (Inr ()) (Inr ()) (Inr ())
        = (failure 400 ''At least one product is required'', []))
   \<and> (get_field [(''products'', JStr ''p1'')] ''products'' = JStr ''p1''
    \<and> generate_link ''00ff00ff00ff00ff'' ''2024-01-01T00:00:00.000Z'' [(''products'', JStr ''p1'')]
          (Inr []) (Inr ()) (Inr ()) (Inr ())
        = (failure 400 ''At least one product is required'', []))
   \<and> (get_field [(''products'', JArr [])] ''products'' = JArr []
    \<and> generate_link ''00ff00ff00ff00ff'' ''2024-01-01T00:00:00.000Z'' [(''products'', JArr [])]
          (Inr []) (Inr ()) (Inr ()) (Inr ())
        = (failure 400 ''At least one product is required'', []))"
proof -
  have a: "map_of ([] :: (string \<times> jsval) list) ''products'' = None" by simp
  have b: "\<not> is_array (get_field [(''products'', JStr ''p1'')] ''products'')"
    by (simp add: get_field_def)
  have c: "get_field [(''products'', JArr [])] ''products'' = JArr []"
    by (simp add: get_field_def)
  show ?thesis
    using generate_link_without_products [of "[]", OF disjI1, OF a]
      generate_link_without_products [of "[(''products'', JStr ''p1'')]", OF disjI2, OF disjI1, OF b]
      generate_link_without_products [of "[(''products'', JArr [])]", OF disjI2, OF disjI2, OF c]
    by (simp add: get_field_def)
qed

subsection \<open>update-payment-status rewrites the rows of one link\<close>

lemma at_index_set_index_same: "at_index (set_index xs i v) i = Some v"
  by (auto simp: at_index_def set_index_def nth_append)

lemma at_index_set_index_other:
  "j < length xs \<Longrightarrow> j \<noteq> i \<Longrightarrow> at_index (set_index xs i v) j = Some (xs ! j)"
  by (auto simp: at_index_def set_index_def nth_append)

lemma updated_rows_nth:
  "i < length rows \<Longrightarrow> updated_rows l p rows ! i = update_row l p (rows ! i)"
  by (simp add: updated_rows_def)

text \<open>
  C1, as amended. For every OrderLinks table and every
  \<^verbatim>\<open>PUT /api/update-payment-status\<close> request: when \<^verbatim>\<open>linkId\<close> and \<^verbatim>\<open>paymentStatus\<close>
  are both truthy (so that the guard passes) and the three spreadsheet calls succeed,
  the table is read, the range is cleared and one table is written back. For every
  request and whatever the outcomes of the clear and the update, no other table is ever
  sent; the table written back has as many rows as the table read; a row whose first
  cell equals the link id has the payment status at index 4 and its other cells as
  read; and a row whose first cell differs is written back with all its cells as read.
\<close>

theorem update_payment_status_rewrites_link_rows:
  "(truthy (get_field body ''linkId'') \<and> truthy (get_field body ''paymentStatus'') \<longrightarrow>
      update_payment_status body (Inr rows) (Inr ()) (Inr ())
        = (ok [(''success'', JBool True), (''message'', JStr ''Payment status updated successfully'')],
           [ValuesGet OrderLinksSheet order_links_range,
            ValuesClear OrderLinksSheet order_links_range,
            ValuesUpdate OrderLinksSheet order_links_range
              (map JArr (updated_rows (get_field body ''linkId'') (get_field body ''paymentStatus'') rows))]))
   \<and> (\<forall>valuesClear valuesUpdate s rg vals.
         ValuesUpdate s rg vals \<in> set (snd (update_payment_status body (Inr rows) valuesClear valuesUpdate))
         \<longrightarrow> vals = map JArr (updated_rows (get_field body ''linkId'') (get_field body ''paymentStatus'') rows))
   \<and> length (updated_rows (get_field body ''linkId'') (get_field body ''paymentStatus'') rows) = length rows
   \<and> (\<forall>i < length rows.
         if strict_eq (of_cell (at_index (rows ! i) 0)) (get_field body ''linkId'')
         then at_index (updated_rows (get_field body ''linkId'') (get_field body ''paymentStatus'') rows ! i) 4
                = Some (get_field body ''paymentStatus'')
              \<and> (\<forall>j < length (rows ! i). j \<noteq> 4 \<longrightarrow>
                    at_index (updated_rows (get_field body ''linkId'') (get_field body ''paymentStatus'') rows ! i) j
                      = Some (JStr (rows ! i ! j)))
         else updated_rows (get_field body ''linkId'') (get_field body ''paymentStatus'') rows ! i
                = map JStr (rows ! i))"
proof (intro conjI allI impI)
  assume "truthy (get_field body ''linkId'') \<and> truthy (get_field body ''paymentStatus'')"
  then show "update_payment_status body (Inr rows) (Inr ()) (Inr ())
        = (ok [(''success'', JBool True), (''message'', JStr ''Payment status updated successfully'')],
           [ValuesGet OrderLinksSheet order_links_range,
            ValuesClear OrderLinksSheet order_links_range,
            ValuesUpdate OrderLinksSheet order_links_range
              (map JArr (updated_rows (get_field body ''linkId'') (get_field body ''paymentStatus'') rows))])"
    by (simp add: update_payment_status_def Let_def)
next
  fix valuesClear valuesUpdate :: "unit outcome" and s rg vals
  assume "ValuesUpdate s rg vals \<in> set (snd (update_payment_status body (Inr rows) valuesClear valuesUpdate))"
  then show "vals = map JArr (updated_rows (get_field body ''linkId'') (get_field body ''paymentStatus'') rows)"
    by (auto simp: update_payment_status_def Let_def split: sum.splits if_splits)
next
  show "length (updated_rows (get_field body ''linkId'') (get_field body ''paymentStatus'') rows) = length rows"
    by (simp add: updated_rows_def)
next
  fix i assume i: "i < length rows"
  show "if strict_eq (of_cell (at_index (rows ! i) 0)) (get_field body ''linkId'')
         then at_index (updated_rows (get_field body ''linkId'') (get_field body ''paymentStatus'') rows ! i) 4
                = Some (get_field body ''paymentStatus'')
              \<and> (\<forall>j < length (rows ! i). j \<noteq> 4 \<longrightarrow>
                    at_index (updated_rows (get_field body ''linkId'') (get_field body ''paymentStatus'') rows ! i) j
                      = Some (JStr (rows ! i ! j)))
         else updated_rows (get_field body ''linkId'') (get_field body ''paymentStatus'') rows ! i
                = map JStr (rows ! i)"
    using i by (simp add: updated_rows_nth update_row_def at_index_set_index_same at_index_set_index_other)
qed

theorem update_payment_status_rewrites_link_rows_witness:
  "truthy (get_field [(''linkId'', JStr ''ab12''), (''paymentStatus'', JStr ''paid'')] ''linkId'')
   \<and> truthy (get_field [(''linkId'', JStr ''ab12''), (''paymentStatus'', JStr ''paid'')] ''paymentStatus'')
   \<and> update_payment_status [(''linkId'', JStr ''ab12''), (''paymentStatus'', JStr ''paid'')]
        (Inr [[''ab12'', ''p1'', ''2'', ''t1''],
              [''cd34'', ''p2'', ''1'', ''t2'', ''pending''],
              [''ab12'', ''p3'', ''1'', ''t1'', ''pending'']])
        (Inr ()) (Inr ())
      = (ok [(''success'', JBool True), (''message'', JStr ''Payment status updated successfully'')],
         [ValuesGet OrderLinksSheet order_links_range,
          ValuesClear OrderLinksSheet order_links_range,
          ValuesUpdate OrderLinksSheet order_links_range
            [JArr [JStr ''ab12'', JStr ''p1'', JStr ''2'', JStr ''t1'', JStr ''paid''],
             JArr [JStr ''cd34'', JStr ''p2'', JStr ''1'', JStr ''t2'', JStr ''pending''],
             JArr [JStr ''ab12'', JStr ''p3'', JStr ''1'', JStr ''t1'', JStr ''paid'']]])"
proof -
  have a: "truthy (get_field [(''linkId'', JStr ''ab12''), (''paymentStatus'', JStr ''paid'')] ''linkId'')"
    by (simp add: get_field_def)
  have b: "truthy (get_field [(''linkId'', JStr ''ab12''), (''paymentStatus'', JStr ''paid'')] ''paymentStatus'')"
    by (simp add: get_field_def)
  note t = update_payment_status_rewrites_link_rows
    [where body = "[(''linkId'', JStr ''ab12''), (''paymentStatus'', JStr ''paid'')]"
      and rows = "[[''ab12'', ''p1'', ''2'', ''t1''], [''cd34'', ''p2'', ''1'', ''t2'', ''pending''], [''ab12'', ''p3'', ''1'', ''t1'', ''pending'']]"]
  show ?thesis
    using a b t [THEN conjunct1, rule_format, OF conjI [OF a b]]
    by (simp add: updated_rows_def update_row_def set_index_def at_index_def of_cell_def get_field_def)
qed

text \<open>
  C1 as first stated (for every request with both fields present) fails where a field
  is present and falsy. With \<^verbatim>\<open>paymentStatus\<close> the empty string, or \<^verbatim>\<open>false\<close>, the
  guard answers 400 and the handler reads and writes nothing: no row of the link gets
  the given status.
\<close>

theorem update_payment_status_rewrites_link_rows_counterexample:
  "map_of [(''linkId'', JStr ''ab12''), (''paymentStatus'', JStr [])] ''paymentStatus'' = Some (JStr [])
   \<and> update_payment_status [(''linkId'', JStr ''ab12''), (''paymentStatus'', JStr [])]
        (Inr [[''ab12'', ''p1'', ''2'', ''t1'']]) (Inr ()) (Inr ())
       = (failure 400 ''linkId and paymentStatus are required'', [])
   \<and> map_of [(''linkId'', JStr ''ab12''), (''paymentStatus'', JBool False)] ''paymentStatus''
       = Some (JBool False)
   \<and> update_payment_status [(''linkId'', JStr ''ab12''), (''paymentStatus'', JBool False)]
        (Inr [[''ab12'', ''p1'', ''2'', ''t1'']]) (Inr ()) (Inr ())
       = (failure 400 ''linkId and paymentStatus are required'', [])"
  by (simp add: update_payment_status_def get_field_def)

subsection \<open>order-link for an unknown link\<close>

lemma field_JObj: "field (JObj kvs) k = get_field kvs k"
  by (simp add: field_def)

lemma payment_status_matched:
  "payment_status (link # links)
     = (if truthy (of_cell (at_index link 4)) then of_cell (at_index link 4) else JStr ''pending'')"
  by (simp add: payment_status_def Let_def)

lemma payment_status_text: "\<exists>s. payment_status (link # links) = JStr s"
  by (cases "at_index link 4") (simp_all add: payment_status_matched of_cell_def)

lemma get_order_link_status_200:
  assumes "status (fst (get_order_link linkId linkGet productGet)) = 200"
  shows "\<exists>linkRows productRows items.
           linkGet = Inr linkRows \<and> productGet = Inr productRows
           \<and> filter (\<lambda>row. at_index row 0 = Some linkId) linkRows \<noteq> []
           \<and> order_products (products_map productRows) (filter (\<lambda>row. at_index row 0 = Some linkId) linkRows) = Inr items
           \<and> get_order_link linkId linkGet productGet
               = (ok [(''success'', JBool True),
                      (''data'', JObj [(''linkId'', JStr linkId),
                                       (''paymentStatus'', payment_status (filter (\<lambda>row. at_index row 0 = Some linkId) linkRows)),
                                       (''products'', JArr items),
                                       (''totalAmount'', JNum (total_amount items))])],
                  [ValuesGet OrderLinksSheet order_links_range, ValuesGet ProductsSheet products_range])"
  using assms
  by (auto simp: get_order_link_def Let_def failure_def server_error_def ok_def split: sum.splits if_splits)

lemma get_order_link_data:
  "field (json (fst (get_order_link linkId linkGet productGet))) ''data'' = JUndefined
   \<or> (\<exists>linkRows. linkGet = Inr linkRows
        \<and> filter (\<lambda>row. at_index row 0 = Some linkId) linkRows \<noteq> []
        \<and> field (field (json (fst (get_order_link linkId linkGet productGet))) ''data'') ''paymentStatus''
            = payment_status (filter (\<lambda>row. at_index row 0 = Some linkId) linkRows))"
  by (auto simp: get_order_link_def Let_def failure_def server_error_def ok_def field_def get_field_def
           split: sum.splits if_splits)

text \<open>
  C5. For every \<^verbatim>\<open>GET /api/order-link/:linkId\<close> request, when the OrderLinks table has no
  row whose first cell equals the link id, the response is 404 with \<^verbatim>\<open>success: false\<close>
  and the only spreadsheet call is the read of OrderLinks: the Products table is not read
  and its outcome has no part in the response. And for every request and every outcome
  of the reads, the payment status of the response is never the value of the bitwise-or
  fallback; a response of status 200 carries the status of the first matching row, or
  \<^verbatim>\<open>pending\<close> when that cell is empty or absent, and has a matching row.
\<close>

theorem order_link_unknown:
  "((\<forall>row \<in> set linkRows. at_index row 0 \<noteq> Some linkId) \<longrightarrow>
      get_order_link linkId (Inr linkRows) productGet
        = (failure 404 ''Order link not found'', [ValuesGet OrderLinksSheet order_links_range])
      \<and> status (fst (get_order_link linkId (Inr linkRows) productGet)) = 404
      \<and> field (json (fst (get_order_link linkId (Inr linkRows) productGet))) ''success'' = JBool False)
   \<and> field (field (json (fst (get_order_link linkId linkGet productGet))) ''data'') ''paymentStatus''
        \<noteq> bitor_fallback
   \<and> (status (fst (get_order_link linkId linkGet productGet)) = 200 \<longrightarrow>
        (\<exists>linkRows link links.
           linkGet = Inr linkRows
           \<and> filter (\<lambda>row. at_index row 0 = Some linkId) linkRows = link # links
           \<and> field (field (json (fst (get_order_link linkId linkGet productGet))) ''data'') ''paymentStatus''
               = (if truthy (of_cell (at_index link 4)) then of_cell (at_index link 4) else JStr ''pending'')))"
proof (intro conjI impI)
  assume none: "\<forall>row \<in> set linkRows. at_index row 0 \<noteq> Some linkId"
  then have "filter (\<lambda>row. at_index row 0 = Some linkId) linkRows = []"
    by (simp add: filter_empty_conv)
  then show r: "get_order_link linkId (Inr linkRows) productGet
        = (failure 404 ''Order link not found'', [ValuesGet OrderLinksSheet order_links_range])"
    by (simp add: get_order_link_def Let_def)
  show "status (fst (get_order_link linkId (Inr linkRows) productGet)) = 404"
    by (simp add: r failure_def)
  show "field (json (fst (get_order_link linkId (Inr linkRows) productGet))) ''success'' = JBool False"
    by (simp add: r failure_def field_def get_field_def)
next
  show "field (field (json (fst (get_order_link linkId linkGet productGet))) ''data'') ''paymentStatus''
        \<noteq> bitor_fallback"
  proof (rule disjE [OF get_order_link_data [of linkId linkGet productGet]])
    assume "field (json (fst (get_order_link linkId linkGet productGet))) ''data'' = JUndefined"
    then show ?thesis by (simp add: field_def bitor_fallback_def)
  next
    assume "\<exists>linkRows. linkGet = Inr linkRows
        \<and> filter (\<lambda>row. at_index row 0 = Some linkId) linkRows \<noteq> []
        \<and> field (field (json (fst (get_order_link linkId linkGet productGet))) ''data'') ''paymentStatus''
            = payment_status (filter (\<lambda>row. at_index row 0 = Some linkId) linkRows)"
    then obtain linkRows link links where
      "filter (\<lambda>row. at_index row 0 = Some linkId) linkRows = link # links"
      and p: "field (field (json (fst (get_order_link linkId linkGet productGet))) ''data'') ''paymentStatus''
            = payment_status (link # links)"
      by (metis list.exhaust)
    from payment_status_text [of link links] p show ?thesis
      by (auto simp: bitor_fallback_def)
  qed
next
  assume "status (fst (get_order_link linkId linkGet productGet)) = 200"
  from get_order_link_status_200 [OF this] obtain linkRows productRows items where
    l: "linkGet = Inr linkRows"
    and ne: "filter (\<lambda>row. at_index row 0 = Some linkId) linkRows \<noteq> []"
    and r: "get_order_link linkId linkGet productGet
               = (ok [(''success'', JBool True),
                      (''data'', JObj [(''linkId'', JStr linkId),
                                       (''paymentStatus'', payment_status (filter (\<lambda>row. at_index row 0 = Some linkId) linkRows)),
                                       (''products'', JArr items),
                                       (''totalAmount'', JNum (total_amount items))])],
                  [ValuesGet OrderLinksSheet order_links_range, ValuesGet ProductsSheet products_range])"
    by blast
  from ne obtain link links where
    f: "filter (\<lambda>row. at_index row 0 = Some linkId) linkRows = link # links"
    by (cases "filter (\<lambda>row. at_index row 0 = Some linkId) linkRows") auto
  have "field (field (json (fst (get_order_link linkId linkGet productGet))) ''data'') ''paymentStatus''
          = payment_status (link # links)"
    by (simp add: r f ok_def field_def get_field_def)
  with l f show "\<exists>linkRows link links.
           linkGet = Inr linkRows
           \<and> filter (\<lambda>row. at_index row 0 = Some linkId) linkRows = link # links
           \<and> field (field (json (fst (get_order_link linkId linkGet productGet))) ''data'') ''paymentStatus''
               = (if truthy (of_cell (at_index link 4)) then of_cell (at_index link 4) else JStr ''pending'')"
    by (simp add: payment_status_matched)
qed

theorem order_link_unknown_witness:
  "at_index [''ab12'', ''p1'', ''2'', ''t1''] 0 \<noteq> Some ''ffff''
   \<and> get_order_link ''ffff'' (Inr [[''ab12'', ''p1'', ''2'', ''t1'']]) (Inl ''never read'')
       = (failure 404 ''Order link not found'', [ValuesGet OrderLinksSheet order_links_range])
   \<and> status (fst (get_order_link ''ab12'' (Inr [[''ab12'', ''p1'', ''2'', ''t1'', ''paid'']])
        (Inr [[''p1'', ''Mug'', ''A mug'', '''', '''', '''', '''', '''', '''', '''', '''', '''', ''100'']]))) = 200
   \<and> field (field (json (fst (get_order_link ''ab12'' (Inr [[''ab12'', ''p1'', ''2'', ''t1'', ''paid'']])
        (Inr [[''p1'', ''Mug'', ''A mug'', '''', '''', '''', '''', '''', '''', '''', '''', '''', ''100'']])))) ''data'')
        ''paymentStatus'' = JStr ''paid''"
proof -
  have a: "\<forall>row \<in> set [[''ab12'', ''p1'', ''2'', ''t1'']]. at_index row 0 \<noteq> Some ''ffff''"
    by (simp add: at_index_def)
  have b: "status (fst (get_order_link ''ab12'' (Inr [[''ab12'', ''p1'', ''2'', ''t1'', ''paid'']])
        (Inr [[''p1'', ''Mug'', ''A mug'', '''', '''', '''', '''', '''', '''', '''', '''', '''', ''100'']]))) = 200"
    by (simp add: get_order_link_def Let_def at_index_def products_map_def ok_def)
  show ?thesis
    using a b
      order_link_unknown [where linkRows = "[[''ab12'', ''p1'', ''2'', ''t1'']]" and linkId = "''ffff''"
        and productGet = "Inl ''never read''" and linkGet = "Inr [[''ab12'', ''p1'', ''2'', ''t1'']]"]
      order_link_unknown [where linkRows = "[]" and linkId = "''ab12''"
        and linkGet = "Inr [[''ab12'', ''p1'', ''2'', ''t1'', ''paid'']]"
        and productGet = "Inr [[''p1'', ''Mug'', ''A mug'', '''', '''', '''', '''', '''', '''', '''', '''', '''', ''100'']]"]
    by (auto simp: at_index_def of_cell_def)
qed

subsection \<open>order by id: the first matching row\<close>

lemma order_data_paths:
  "field (JObj (order_data r)) ''orderId'' = of_cell (at_index r 0)
   \<and> field (JObj (order_data r)) ''pickUpCode'' = of_cell (at_index r 1)
   \<and> field (JObj (order_data r)) ''phoneNumber'' = of_cell (at_index r 2)
   \<and> field (JObj (order_data r)) ''firstName'' = of_cell (at_index r 3)
   \<and> field (JObj (order_data r)) ''lastName'' = of_cell (at_index r 4)
   \<and> field (JObj (order_data r)) ''email'' = of_cell (at_index r 5)
   \<and> field (field (JObj (order_data r)) ''shippingAddress'') ''addressLine1'' = of_cell (at_index r 6)
   \<and> field (field (JObj (order_data r)) ''shippingAddress'') ''addressLine2'' = of_cell (at_index r 7)
   \<and> field (field (JObj (order_data r)) ''shippingAddress'') ''pincode'' = of_cell (at_index r 8)
   \<and> field (field (JObj (order_data r)) ''shippingAddress'') ''city'' = of_cell (at_index r 9)
   \<and> field (field (JObj (order_data r)) ''shippingAddress'') ''state'' = of_cell (at_index r 10)
   \<and> field (field (JObj (order_data r)) ''shippingAddress'') ''country'' = of_cell (at_index r 11)
   \<and> field (field (JObj (order_data r)) ''billingAddress'') ''addressLine1'' = of_cell (at_index r 12)
   \<and> field (field (JObj (order_data r)) ''billingAddress'') ''addressLine2'' = of_cell (at_index r 13)
   \<and> field (field (JObj (order_data r)) ''billingAddress'') ''pincode'' = of_cell (at_index r 14)
   \<and> field (field (JObj (order_data r)) ''billingAddress'') ''city'' = of_cell (at_index r 15)
   \<and> field (field (JObj (order_data r)) ''billingAddress'') ''state'' = of_cell (at_index r 16)
   \<and> field (field (JObj (order_data r)) ''billingAddress'') ''country'' = of_cell (at_index r 17)
   \<and> field (field (JObj (order_data r)) ''product'') ''name'' = of_cell (at_index r 18)
   \<and> field (field (JObj (order_data r)) ''product'') ''unitPrice'' = JNum (or_zero (parseFloat (at_index r 19)))
   \<and> field (field (JObj (order_data r)) ''product'') ''quantity'' = JNum (or_zero (parseInt (at_index r 20)))
   \<and> field (field (JObj (order_data r)) ''product'') ''SKU'' = of_cell (at_index r 21)
   \<and> field (field (JObj (order_data r)) ''payment'') ''method'' = of_cell (at_index r 22)
   \<and> field (field (JObj (order_data r)) ''payment'') ''COD'' = of_cell (at_index r 23)
   \<and> field (field (JObj (order_data r)) ''payment'') ''totalAmount'' = JNum (or_zero (parseFloat (at_index r 24)))
   \<and> field (field (JObj (order_data r)) ''payment'') ''paymentId'' = of_cell (at_index r 30)
   \<and> field (field (JObj (order_data r)) ''shipping'') ''weight'' = JNum (or_zero (parseFloat (at_index r 25)))
   \<and> field (field (field (JObj (order_data r)) ''shipping'') ''dimensions'') ''length''
        = JNum (or_zero (parseFloat (at_index r 26)))
   \<and> field (field (field (JObj (order_data r)) ''shipping'') ''dimensions'') ''breadth''
        = JNum (or_zero (parseFloat (at_index r 27)))
   \<and> field (field (field (JObj (order_data r)) ''shipping'') ''dimensions'') ''height''
        = JNum (or_zero (parseFloat (at_index r 28)))
   \<and> field (field (JObj (order_data r)) ''shipping'') ''courierId'' = of_cell (at_index r 29)
   \<and> field (JObj (order_data r)) ''isMultipleProductOrder'' = of_cell (at_index r 31)
   \<and> field (JObj (order_data r)) ''timestamp'' = of_cell (at_index r 32)"
  by (simp add: order_data_def field_def get_field_def)

text \<open>
  C7. For every \<^verbatim>\<open>GET /api/order/:orderId\<close> request over an Orders table that was read:
  when no row has the order id in its first cell the response is 404; otherwise the
  response is built from the first row, in the order of the sheet, whose first cell is
  the order id, and from that row alone, also when later rows share the id. The row is
  decoded by position into the top-level fields and the nested objects
  \<^verbatim>\<open>shippingAddress\<close>, \<^verbatim>\<open>billingAddress\<close>, \<^verbatim>\<open>product\<close>, \<^verbatim>\<open>payment\<close> and
  \<^verbatim>\<open>shipping\<close> (with its \<^verbatim>\<open>dimensions\<close>): the last conjunct gives the cell of every
  path.
\<close>

theorem get_order_first_matching_row:
  "((\<forall>row \<in> set rows. at_index row 0 \<noteq> Some orderId) \<longrightarrow>
      get_order orderId (Inr rows) = (failure 404 ''Order not found'', [ValuesGet OrdersSheet orders_range]))
   \<and> (\<forall>i < length rows.
         at_index (rows ! i) 0 = Some orderId \<and> (\<forall>j < i. at_index (rows ! j) 0 \<noteq> Some orderId) \<longrightarrow>
         get_order orderId (Inr rows)
           = (ok [(''success'', JBool True), (''data'', JObj (order_data (rows ! i)))],
              [ValuesGet OrdersSheet orders_range]))
   \<and> (status (fst (get_order orderId (Inr rows))) = 404
        \<or> (\<exists>i < length rows. at_index (rows ! i) 0 = Some orderId
              \<and> (\<forall>j < i. at_index (rows ! j) 0 \<noteq> Some orderId)
              \<and> fst (get_order orderId (Inr rows))
                  = ok [(''success'', JBool True), (''data'', JObj (order_data (rows ! i)))]))
   \<and> (field (JObj (order_data r)) ''orderId'' = of_cell (at_index r 0)
   \<and> field (JObj (order_data r)) ''pickUpCode'' = of_cell (at_index r 1)
   \<and> field (JObj (order_data r)) ''phoneNumber'' = of_cell (at_index r 2)
   \<and> field (JObj (order_data r)) ''firstName'' = of_cell (at_index r 3)
   \<and> field (JObj (order_data r)) ''lastName'' = of_cell (at_index r 4)
   \<and> field (JObj (order_data r)) ''email'' = of_cell (at_index r 5)
   \<and> field (field (JObj (order_data r)) ''shippingAddress'') ''addressLine1'' = of_cell (at_index r 6)
   \<and> field (field (JObj (order_data r)) ''shippingAddress'') ''addressLine2'' = of_cell (at_index r 7)
   \<and> field (field (JObj (order_data r)) ''shippingAddress'') ''pincode'' = of_cell (at_index r 8)
   \<and> field (field (JObj (order_data r)) ''shippingAddress'') ''city'' = of_cell (at_index r 9)
   \<and> field (field (JObj (order_data r)) ''shippingAddress'') ''state'' = of_cell (at_index r 10)
   \<and> field (field (JObj (order_data r)) ''shippingAddress'') ''country'' = of_cell (at_index r 11)
   \<and> field (field (JObj (order_data r)) ''billingAddress'') ''addressLine1'' = of_cell (at_index r 12)
   \<and> field (field (JObj (order_data r)) ''billingAddress'') ''addressLine2'' = of_cell (at_index r 13)
   \<and> field (field (JObj (order_data r)) ''billingAddress'') ''pincode'' = of_cell (at_index r 14)
   \<and> field (field (JObj (order_data r)) ''billingAddress'') ''city'' = of_cell (at_index r 15)
   \<and> field (field (JObj (order_data r)) ''billingAddress'') ''state'' = of_cell (at_index r 16)
   \<and> field (field (JObj (order_data r)) ''billingAddress'') ''country'' = of_cell (at_index r 17)
   \<and> field (field (JObj (order_data r)) ''product'') ''name'' = of_cell (at_index r 18)
   \<and> field (field (JObj (order_data r)) ''product'') ''unitPrice'' = JNum (or_zero (parseFloat (at_index r 19)))
   \<and> field (field (JObj (order_data r)) ''product'') ''quantity'' = JNum (or_zero (parseInt (at_index r 20)))
   \<and> field (field (JObj (order_data r)) ''product'') ''SKU'' = of_cell (at_index r 21)
   \<and> field (field (JObj (order_data r)) ''payment'') ''method'' = of_cell (at_index r 22)
   \<and> field (field (JObj (order_data r)) ''payment'') ''COD'' = of_cell (at_index r 23)
   \<and> field (field (JObj (order_data r)) ''payment'') ''totalAmount'' = JNum (or_zero (parseFloat (at_index r 24)))
   \<and> field (field (JObj (order_data r)) ''payment'') ''paymentId'' = of_cell (at_index r 30)
   \<and> field (field (JObj (order_data r)) ''shipping'') ''weight'' = JNum (or_zero (parseFloat (at_index r 25)))
   \<and> field (field (field (JObj (order_data r)) ''shipping'') ''dimensions'') ''length''
        = JNum (or_zero (parseFloat (at_index r 26)))
   \<and> field (field (field (JObj (order_data r)) ''shipping'') ''dimensions'') ''breadth''
        = JNum (or_zero (parseFloat (at_index r 27)))
   \<and> field (field (field (JObj (order_data r)) ''shipping'') ''dimensions'') ''height''
        = JNum (or_zero (parseFloat (at_index r 28)))
   \<and> field (field (JObj (order_data r)) ''shipping'') ''courierId'' = of_cell (at_index r 29)
   \<and> field (JObj (order_data r)) ''isMultipleProductOrder'' = of_cell (at_index r 31)
   \<and> field (JObj (order_data r)) ''timestamp'' = of_cell (at_index r 32))"
proof (intro conjI allI impI)
  assume "\<forall>row \<in> set rows. at_index row 0 \<noteq> Some orderId"
  then have "find (\<lambda>row. at_index row 0 = Some orderId) rows = None"
    by (simp add: find_None_iff)
  then show "get_order orderId (Inr rows) = (failure 404 ''Order not found'', [ValuesGet OrdersSheet orders_range])"
    by (simp add: get_order_def)
next
  fix i
  assume "i < length rows"
    and "at_index (rows ! i) 0 = Some orderId \<and> (\<forall>j < i. at_index (rows ! j) 0 \<noteq> Some orderId)"
  then have "find (\<lambda>row. at_index row 0 = Some orderId) rows = Some (rows ! i)"
    by (auto simp: find_Some_iff)
  then show "get_order orderId (Inr rows)
           = (ok [(''success'', JBool True), (''data'', JObj (order_data (rows ! i)))],
              [ValuesGet OrdersSheet orders_range])"
    by (simp add: get_order_def)
next
  show "status (fst (get_order orderId (Inr rows))) = 404
        \<or> (\<exists>i < length rows. at_index (rows ! i) 0 = Some orderId
              \<and> (\<forall>j < i. at_index (rows ! j) 0 \<noteq> Some orderId)
              \<and> fst (get_order orderId (Inr rows))
                  = ok [(''success'', JBool True), (''data'', JObj (order_data (rows ! i)))])"
  proof (cases "find (\<lambda>row. at_index row 0 = Some orderId) rows")
    case None
    then show ?thesis by (simp add: get_order_def failure_def)
  next
    case (Some orderRow)
    then obtain i where "i < length rows" "at_index (rows ! i) 0 = Some orderId"
      "orderRow = rows ! i" "\<forall>j < i. at_index (rows ! j) 0 \<noteq> Some orderId"
      by (auto simp: find_Some_iff)
    with Some show ?thesis by (auto simp: get_order_def)
  qed
qed (simp_all add: order_data_paths)

theorem get_order_first_matching_row_witness:
  "at_index [''o7'', ''13556454'', ''9000000000'', ''Asha'', ''Rao'', ''a@b.c'', ''s1'', ''s2'', ''411001'', ''Pune'', ''MH'', ''India'', ''b1'', ''b2'', ''411001'', ''Pune'', ''MH'', ''India'', ''Mug'', ''100'', ''2'', ''SKU1''] 0 = Some ''o7''
   \<and> get_order ''o7'' (Inr [[''o7'', ''13556454'', ''9000000000'', ''Asha'', ''Rao'', ''a@b.c'', ''s1'', ''s2'', ''411001'', ''Pune'', ''MH'', ''India'', ''b1'', ''b2'', ''411001'', ''Pune'', ''MH'', ''India'', ''Mug'', ''100'', ''2'', ''SKU1''],
      [''o7'', ''13556454'', ''9000000000'', ''Asha'', ''Rao'', ''a@b.c'', ''s1'', ''s2'', ''411001'', ''Pune'', ''MH'', ''India'', ''b1'', ''b2'', ''411001'', ''Pune'', ''MH'', ''India'', ''Cup'', ''50'', ''1'', ''SKU2'']])
       = (ok [(''success'', JBool True), (''data'', JObj (order_data [''o7'', ''13556454'', ''9000000000'', ''Asha'', ''Rao'', ''a@b.c'', ''s1'', ''s2'', ''411001'', ''Pune'', ''MH'', ''India'', ''b1'', ''b2'', ''411001'', ''Pune'', ''MH'', ''India'', ''Mug'', ''100'', ''2'', ''SKU1'']))],
          [ValuesGet OrdersSheet orders_range])
   \<and> field (field (JObj (order_data [''o7'', ''13556454'', ''9000000000'', ''Asha'', ''Rao'', ''a@b.c'', ''s1'', ''s2'', ''411001'', ''Pune'', ''MH'', ''India'', ''b1'', ''b2'', ''411001'', ''Pune'', ''MH'', ''India'', ''Mug'', ''100'', ''2'', ''SKU1''])) ''product'') ''name'' = JStr ''Mug''
   \<and> field (field (JObj (order_data [''o7'', ''13556454'', ''9000000000'', ''Asha'', ''Rao'', ''a@b.c'', ''s1'', ''s2'', ''411001'', ''Pune'', ''MH'', ''India'', ''b1'', ''b2'', ''411001'', ''Pune'', ''MH'', ''India'', ''Mug'', ''100'', ''2'', ''SKU1''])) ''shippingAddress'') ''city'' = JStr ''Pune''
   \<and> get_order ''o9'' (Inr [[''o7'', ''13556454'', ''9000000000'', ''Asha'', ''Rao'', ''a@b.c'', ''s1'', ''s2'', ''411001'', ''Pune'', ''MH'', ''India'', ''b1'', ''b2'', ''411001'', ''Pune'', ''MH'', ''India'', ''Mug'', ''100'', ''2'', ''SKU1''],
      [''o7'', ''13556454'', ''9000000000'', ''Asha'', ''Rao'', ''a@b.c'', ''s1'', ''s2'', ''411001'', ''Pune'', ''MH'', ''India'', ''b1'', ''b2'', ''411001'', ''Pune'', ''MH'', ''India'', ''Cup'', ''50'', ''1'', ''SKU2'']]) = (failure 404 ''Order not found'', [ValuesGet OrdersSheet orders_range])"
proof -
  let ?rows = "[[''o7'', ''13556454'', ''9000000000'', ''Asha'', ''Rao'', ''a@b.c'', ''s1'', ''s2'', ''411001'', ''Pune'', ''MH'', ''India'', ''b1'', ''b2'', ''411001'', ''Pune'', ''MH'', ''India'', ''Mug'', ''100'', ''2'', ''SKU1''],
      [''o7'', ''13556454'', ''9000000000'', ''Asha'', ''Rao'', ''a@b.c'', ''s1'', ''s2'', ''411001'', ''Pune'', ''MH'', ''India'', ''b1'', ''b2'', ''411001'', ''Pune'', ''MH'', ''India'', ''Cup'', ''50'', ''1'', ''SKU2'']]"
  have none: "\<forall>row \<in> set ?rows. at_index row 0 \<noteq> Some ''o9''"
    by (simp add: at_index_def)
  have first: "0 < length ?rows" "at_index (?rows ! 0) 0 = Some ''o7'' \<and> (\<forall>j < 0. at_index (?rows ! j) 0 \<noteq> Some ''o7'')"
    by (simp_all add: at_index_def)
  note t1 = get_order_first_matching_row [where rows = "?rows" and orderId = "''o7''" and r = "?rows ! 0"]
  note t2 = get_order_first_matching_row [where rows = "?rows" and orderId = "''o9''" and r = "?rows ! 0"]
  have a: "get_order ''o7'' (Inr ?rows)
       = (ok [(''success'', JBool True), (''data'', JObj (order_data (?rows ! 0)))],
          [ValuesGet OrdersSheet orders_range])"
    using t1 first by blast
  have b: "get_order ''o9'' (Inr ?rows) = (failure 404 ''Order not found'', [ValuesGet OrdersSheet orders_range])"
    using t2 none by blast
  have c: "field (field (JObj (order_data (?rows ! 0))) ''product'') ''name'' = of_cell (at_index (?rows ! 0) 18)"
    and d: "field (field (JObj (order_data (?rows ! 0))) ''shippingAddress'') ''city'' = of_cell (at_index (?rows ! 0) 9)"
    using t1 by blast+
  show ?thesis
    using a b c d by (simp add: at_index_def of_cell_def)
qed

subsection \<open>The product list carries four fields\<close>

text \<open>
  C10. For every Products table, when the request passes \<^verbatim>\<open>authenticateAdmin\<close> and the
  read succeeds, \<^verbatim>\<open>GET /api/products\<close> answers one record per row with exactly the
  four keys \<^verbatim>\<open>id\<close>, \<^verbatim>\<open>name\<close>, \<^verbatim>\<open>description\<close> and \<^verbatim>\<open>price\<close>, taken from the cells 0,
  1, 2 and, parsed as a float, 12. The keys \<^verbatim>\<open>SKU\<close>, \<^verbatim>\<open>weight\<close>, \<^verbatim>\<open>length\<close>,
  \<^verbatim>\<open>breadth\<close>, \<^verbatim>\<open>height\<close> and \<^verbatim>\<open>colors\<close> are keys of the record that
  \<^verbatim>\<open>GET /api/product/:productId\<close> answers for the same row, and none of them is a key of
  the list's record.
\<close>

theorem products_list_has_four_fields:
  assumes "authenticateAdmin cfg authHeader = Next"
  shows "get_products cfg authHeader (Inr rows)
           = (ok [(''success'', JBool True), (''data'', JArr (map (\<lambda>row. JObj (product_summary row)) rows))],
              [ValuesGet ProductsSheet products_range])
         \<and> (\<forall>row \<in> set rows.
               map fst (product_summary row) = [''id'', ''name'', ''description'', ''price'']
               \<and> field (JObj (product_summary row)) ''id'' = of_cell (at_index row 0)
               \<and> field (JObj (product_summary row)) ''name'' = of_cell (at_index row 1)
               \<and> field (JObj (product_summary row)) ''description'' = of_cell (at_index row 2)
               \<and> field (JObj (product_summary row)) ''price'' = JNum (parseFloat (at_index row 12))
               \<and> (\<forall>k \<in> set [''SKU'', ''weight'', ''length'', ''breadth'', ''height'', ''colors''].
                     k \<in> set (map fst (product_details row))
                     \<and> k \<notin> set (map fst (product_summary row))
                     \<and> field (JObj (product_summary row)) k = JUndefined))
         \<and> (\<forall>productId row.
               find (\<lambda>r. at_index r 0 = Some productId) rows = Some row \<longrightarrow>
               get_product productId (Inr ()) (Inr rows)
                 = (ok [(''success'', JBool True), (''data'', JObj (product_details row))],
                    [SpreadsheetsGet ProductsSheet, ValuesGet ProductsSheet products_range]))"
proof (intro conjI ballI allI impI)
  show "get_products cfg authHeader (Inr rows)
           = (ok [(''success'', JBool True), (''data'', JArr (map (\<lambda>row. JObj (product_summary row)) rows))],
              [ValuesGet ProductsSheet products_range])"
    using assms by (simp add: get_products_def)
next
  fix productId row
  assume "find (\<lambda>r. at_index r 0 = Some productId) rows = Some row"
  then show "get_product productId (Inr ()) (Inr rows)
                 = (ok [(''success'', JBool True), (''data'', JObj (product_details row))],
                    [SpreadsheetsGet ProductsSheet, ValuesGet ProductsSheet products_range])"
    by (simp add: get_product_def)
qed (auto simp: product_summary_def product_details_def field_def get_field_def)


theorem products_list_has_four_fields_witness:
  "authenticateAdmin \<lparr>admin_username = Some ''admin'', admin_password = Some ''secret''\<rparr>
     (Some ''Bearer YWRtaW46c2VjcmV0'') = Next
   \<and> get_products \<lparr>admin_username = Some ''admin'', admin_password = Some ''secret''\<rparr>
        (Some ''Bearer YWRtaW46c2VjcmV0'')
        (Inr [[''p1'', ''Mug'', ''A mug'', '''', '''', '''', '''', '''', '''', '''', '''', '''', ''100'', '''', '''', '''', '''', '''', '''', '''', '''', '''', ''0.4'', '''', '''', '''', '''', '''', '''', '''', ''red'', ''SKU-1'', ''10'', ''12'', ''8'']])
      = (ok [(''success'', JBool True),
             (''data'', JArr [JObj [(''id'', JStr ''p1''), (''name'', JStr ''Mug''),
                                    (''description'', JStr ''A mug''),
                                    (''price'', JNum (Finite False 25 2))]])],
         [ValuesGet ProductsSheet products_range])
   \<and> get_product ''p1'' (Inr ())
        (Inr [[''p1'', ''Mug'', ''A mug'', '''', '''', '''', '''', '''', '''', '''', '''', '''', ''100'', '''', '''', '''', '''', '''', '''', '''', '''', '''', ''0.4'', '''', '''', '''', '''', '''', '''', '''', ''red'', ''SKU-1'', ''10'', ''12'', ''8'']])
      = (ok [(''success'', JBool True),
             (''data'', JObj [(''id'', JStr ''p1''), (''name'', JStr ''Mug''),
                              (''description'', JStr ''A mug''),
                              (''price'', JNum (Finite False 25 2)),
                              (''SKU'', JStr ''SKU-1''), (''weight'', JStr ''0.4''),
                              (''length'', JStr ''12''), (''breadth'', JStr ''8''),
                              (''height'', JStr ''10''), (''colors'', JStr ''red'')])],
         [SpreadsheetsGet ProductsSheet, ValuesGet ProductsSheet products_range])"
proof -
  let ?cfg = "\<lparr>admin_username = Some ''admin'', admin_password = Some ''secret''\<rparr>"
  let ?row = "[''p1'', ''Mug'', ''A mug'', '''', '''', '''', '''', '''', '''', '''', '''', '''', ''100'', '''', '''', '''', '''', '''', '''', '''', '''', '''', ''0.4'', '''', '''', '''', '''', '''', '''', '''', ''red'', ''SKU-1'', ''10'', ''12'', ''8'']"
  have auth: "authenticateAdmin ?cfg (Some ''Bearer YWRtaW46c2VjcmV0'') = Next"
    by code_simp
  have pf: "parseFloat (Some ''100'') = Finite False 25 2"
    by code_simp
  have found: "find (\<lambda>r. at_index r 0 = Some ''p1'') [?row] = Some ?row"
    by (simp add: at_index_def)
  note t = products_list_has_four_fields [OF auth, of "[?row]"]
  from t have a: "get_products ?cfg (Some ''Bearer YWRtaW46c2VjcmV0'') (Inr [?row])
           = (ok [(''success'', JBool True), (''data'', JArr (map (\<lambda>row. JObj (product_summary row)) [?row]))],
              [ValuesGet ProductsSheet products_range])"
    by blast
  from t found have b: "get_product ''p1'' (Inr ()) (Inr [?row])
                 = (ok [(''success'', JBool True), (''data'', JObj (product_details ?row))],
                    [SpreadsheetsGet ProductsSheet, ValuesGet ProductsSheet products_range])"
    by blast
  have c: "product_summary ?row
             = [(''id'', JStr ''p1''), (''name'', JStr ''Mug''), (''description'', JStr ''A mug''),
                (''price'', JNum (Finite False 25 2))]"
    by (simp add: product_summary_def at_index_def of_cell_def pf)
  have d: "product_details ?row
             = [(''id'', JStr ''p1''), (''name'', JStr ''Mug''), (''description'', JStr ''A mug''),
                (''price'', JNum (Finite False 25 2)),
                (''SKU'', JStr ''SKU-1''), (''weight'', JStr ''0.4''),
                (''length'', JStr ''12''), (''breadth'', JStr ''8''),
                (''height'', JStr ''10''), (''colors'', JStr ''red'')]"
    by (simp add: product_details_def at_index_def of_cell_def pf)
  show ?thesis
    using auth a b c d by simp
qed

subsection \<open>The total of an order link\<close>

lemma map_of_find:
  "map_of (map (\<lambda>x. (f x, g x)) xs) k = map_option g (find (\<lambda>x. f x = k) xs)"
  by (induction xs) auto

lemma products_map_product_row:
  "products_map productRows k = map_option product_details (product_row productRows k)"
  by (simp add: products_map_def product_row_def rev_map map_of_find)

lemma order_item_numbers:
  "number_of (field (JObj (put_field ''quantity'' (JNum q) (product_details product))) ''price'')
     = parseFloat (at_index product 12)
   \<and> number_of (field (JObj (put_field ''quantity'' (JNum q) (product_details product))) ''quantity'') = q"
  by (simp add: product_details_def field_def get_field_def)

lemma order_products_Cons:
  assumes "productsMap (at_index link 1) = Some product"
    and "order_products productsMap links = Inr items"
  shows "order_products productsMap (link # links)
           = Inr (JObj (put_field ''quantity'' (JNum (parseInt (at_index link 2))) product) # items)"
  using assms by simp

lemma order_products_total:
  assumes "\<forall>link \<in> set links. product_row productRows (at_index link 1) \<noteq> None"
  shows "\<exists>items. order_products (products_map productRows) links = Inr items
           \<and> length items = length links
           \<and> (\<forall>acc. foldl (\<lambda>sum item. js_add sum (js_mul (number_of (field item ''price''))
                                                       (number_of (field item ''quantity'')))) acc items
                 = foldl js_add acc (map (spec_line_amount productRows) links))"
  using assms
proof (induction links)
  case Nil
  then show ?case by simp
next
  case (Cons link links)
  then obtain items where items: "order_products (products_map productRows) links = Inr items"
    "length items = length links"
    "\<forall>acc. foldl (\<lambda>sum item. js_add sum (js_mul (number_of (field item ''price''))
                                                       (number_of (field item ''quantity'')))) acc items
                 = foldl js_add acc (map (spec_line_amount productRows) links)"
    by auto
  from Cons.prems obtain product where p: "product_row productRows (at_index link 1) = Some product"
    by auto
  have pm: "products_map productRows (at_index link 1) = Some (product_details product)"
    by (simp only: products_map_product_row p option.map)
  have la: "spec_line_amount productRows link
              = js_mul (parseFloat (at_index product 12)) (parseInt (at_index link 2))"
    by (simp only: spec_line_amount_def p option.case)
  let ?item = "JObj (put_field ''quantity'' (JNum (parseInt (at_index link 2))) (product_details product))"
  show ?case
  proof (intro exI conjI allI)
    show "order_products (products_map productRows) (link # links) = Inr (?item # items)"
      using order_products_Cons [OF pm items(1)] .
    show "length (?item # items) = length (link # links)"
      by (simp add: items(2))
    fix acc
    show "foldl (\<lambda>sum item. js_add sum (js_mul (number_of (field item ''price''))
                                                (number_of (field item ''quantity'')))) acc (?item # items)
            = foldl js_add acc (map (spec_line_amount productRows) (link # links))"
      by (simp add: items(3) la order_item_numbers)
  qed
qed

text \<open>
  C2. For every \<^verbatim>\<open>GET /api/order-link/:linkId\<close> request where at least one row of
  OrderLinks has the link id in its first cell and the product id of every such row is
  the first cell of a row of Products (both tables read), the response has status 200
  and its \<^verbatim>\<open>totalAmount\<close> is the sum, over the matching rows in the order of the sheet,
  of the price of the row's product parsed as a float times the row's quantity parsed as
  an integer. The witness is the example of the specification: the lines (price 100,
  quantity 2) and (price 50, quantity 1) give 250.
\<close>

theorem order_link_total_amount:
  assumes "filter (\<lambda>row. at_index row 0 = Some linkId) linkRows \<noteq> []"
    and "\<forall>link \<in> set (filter (\<lambda>row. at_index row 0 = Some linkId) linkRows).
           product_row productRows (at_index link 1) \<noteq> None"
  shows "status (fst (get_order_link linkId (Inr linkRows) (Inr productRows))) = 200
         \<and> field (field (json (fst (get_order_link linkId (Inr linkRows) (Inr productRows)))) ''data'') ''totalAmount''
             = JNum (spec_total_amount linkId linkRows productRows)"
proof -
  from order_products_total [OF assms(2)] obtain items where
    "order_products (products_map productRows) (filter (\<lambda>row. at_index row 0 = Some linkId) linkRows) = Inr items"
    and "total_amount items = spec_total_amount linkId linkRows productRows"
    by (auto simp: total_amount_def spec_total_amount_def)
  with assms(1) show ?thesis
    by (simp add: get_order_link_def Let_def ok_def field_def get_field_def)
qed


theorem order_link_total_amount_witness:
  "filter (\<lambda>row. at_index row 0 = Some ''ab12'') [[''ab12'', ''p1'', ''2'', ''t1''], [''cd34'', ''p1'', ''5'', ''t2''], [''ab12'', ''p2'', ''1'', ''t1'']]
     = [[''ab12'', ''p1'', ''2'', ''t1''], [''ab12'', ''p2'', ''1'', ''t1'']]
   \<and> parseFloat (Some ''100'') = num_of_nat 100 \<and> parseInt (Some ''2'') = num_of_nat 2
   \<and> parseFloat (Some ''50'') = num_of_nat 50 \<and> parseInt (Some ''1'') = num_of_nat 1
   \<and> status (fst (get_order_link ''ab12'' (Inr [[''ab12'', ''p1'', ''2'', ''t1''], [''cd34'', ''p1'', ''5'', ''t2''], [''ab12'', ''p2'', ''1'', ''t1'']])
        (Inr [[''p1'', ''Mug'', ''A mug'', '''', '''', '''', '''', '''', '''', '''', '''', '''', ''100''],
      [''p2'', ''Cup'', ''A cup'', '''', '''', '''', '''', '''', '''', '''', '''', '''', ''50'']]))) = 200
   \<and> field (field (json (fst (get_order_link ''ab12'' (Inr [[''ab12'', ''p1'', ''2'', ''t1''], [''cd34'', ''p1'', ''5'', ''t2''], [''ab12'', ''p2'', ''1'', ''t1'']])
        (Inr [[''p1'', ''Mug'', ''A mug'', '''', '''', '''', '''', '''', '''', '''', '''', '''', ''100''],
      [''p2'', ''Cup'', ''A cup'', '''', '''', '''', '''', '''', '''', '''', '''', '''', ''50'']])))) ''data'') ''totalAmount''
       = JNum (num_of_nat 250)"
proof -
  let ?links = "[[''ab12'', ''p1'', ''2'', ''t1''], [''cd34'', ''p1'', ''5'', ''t2''], [''ab12'', ''p2'', ''1'', ''t1'']]"
  let ?prods = "[[''p1'', ''Mug'', ''A mug'', '''', '''', '''', '''', '''', '''', '''', '''', '''', ''100''],
      [''p2'', ''Cup'', ''A cup'', '''', '''', '''', '''', '''', '''', '''', '''', '''', ''50'']]"
  have f: "filter (\<lambda>row. at_index row 0 = Some ''ab12'') ?links
             = [[''ab12'', ''p1'', ''2'', ''t1''], [''ab12'', ''p2'', ''1'', ''t1'']]"
    by (simp add: at_index_def)
  have ne: "filter (\<lambda>row. at_index row 0 = Some ''ab12'') ?links \<noteq> []"
    unfolding f by simp
  have present: "\<forall>link \<in> set (filter (\<lambda>row. at_index row 0 = Some ''ab12'') ?links).
                   product_row ?prods (at_index link 1) \<noteq> None"
    unfolding f by (simp add: product_row_def at_index_def)
  have n: "parseFloat (Some ''100'') = num_of_nat 100" "parseInt (Some ''2'') = num_of_nat 2"
    "parseFloat (Some ''50'') = num_of_nat 50" "parseInt (Some ''1'') = num_of_nat 1"
    by code_simp+
  have total: "spec_total_amount ''ab12'' ?links ?prods = num_of_nat 250"
    by code_simp
  show ?thesis
    using f n order_link_total_amount [OF ne present] by (simp add: total)
qed

subsection \<open>saveToSheet: the customization details and the order rows\<close>

lemma own_keys_None: "own_keys v = None \<longleftrightarrow> v = JUndefined \<or> v = JNull"
  by (cases v) simp_all

lemma save_to_sheet_failure:
  assumes "get_field body ''customizationDetails'' = JUndefined"
  shows "\<exists>e calls. save_to_sheet gt0 body spreadsheetGet valuesAppend
           = (server_error ''Error saving data'' e, calls)"
  using assms
  by (auto simp: save_to_sheet_def split: sum.splits)

text \<open>
  C8. For every \<^verbatim>\<open>POST /api/saveToSheet\<close> request whose body has no
  \<^verbatim>\<open>customizationDetails\<close> field, whatever its products and whatever the outcomes of
  the spreadsheet calls, the response is 500 with \<^verbatim>\<open>success: false\<close>. When the
  reachability check and the append succeed and the products give rows, the rows are
  appended first and the response is still the 500 of the TypeError that
  \<^verbatim>\<open>Object.keys(undefined)\<close> throws.
\<close>

theorem save_to_sheet_without_customization:
  assumes "map_of body ''customizationDetails'' = None"
  shows "status (fst (save_to_sheet gt0 body spreadsheetGet valuesAppend)) = 500
         \<and> field (json (fst (save_to_sheet gt0 body spreadsheetGet valuesAppend))) ''success'' = JBool False
         \<and> (\<forall>productRows. product_rows gt0 body = Inr productRows \<longrightarrow>
               save_to_sheet gt0 body (Inr ()) (Inr ())
                 = (server_error ''Error saving data'' keys_failed,
                    [SpreadsheetsGet OrdersSheet, ValuesAppend OrdersSheet orders_range productRows]))"
proof -
  have u: "get_field body ''customizationDetails'' = JUndefined"
    using assms by (simp add: get_field_def)
  from save_to_sheet_failure [OF u] obtain e calls where
    "save_to_sheet gt0 body spreadsheetGet valuesAppend = (server_error ''Error saving data'' e, calls)"
    by blast
  then have "status (fst (save_to_sheet gt0 body spreadsheetGet valuesAppend)) = 500"
    and "field (json (fst (save_to_sheet gt0 body spreadsheetGet valuesAppend))) ''success'' = JBool False"
    by (simp_all add: server_error_def field_def get_field_def)
  moreover have "\<forall>productRows. product_rows gt0 body = Inr productRows \<longrightarrow>
               save_to_sheet gt0 body (Inr ()) (Inr ())
                 = (server_error ''Error saving data'' keys_failed,
                    [SpreadsheetsGet OrdersSheet, ValuesAppend OrdersSheet orders_range productRows])"
    by (simp add: save_to_sheet_def u)
  ultimately show ?thesis by blast
qed

theorem save_to_sheet_without_customization_witness:
  "map_of [(''orderId'', JStr ''o7''), (''firstName'', JStr ''Asha''), (''PaymentMethod'', JStr ''Prepaid''),
      (''paymentId'', JStr ''pay_1''),
      (''products'', JArr [JObj [(''name'', JStr ''Mug''), (''price'', JNum (Finite False 25 2)),
                                (''quantity'', JNum (Finite False 1 1)), (''SKU'', JStr ''SKU1'')]])] ''customizationDetails'' = None
   \<and> save_to_sheet (\<lambda>v. False)
        [(''orderId'', JStr ''o7''), (''firstName'', JStr ''Asha''), (''PaymentMethod'', JStr ''Prepaid''),
      (''paymentId'', JStr ''pay_1''),
      (''products'', JArr [JObj [(''name'', JStr ''Mug''), (''price'', JNum (Finite False 25 2)),
                                (''quantity'', JNum (Finite False 1 1)), (''SKU'', JStr ''SKU1'')]])]
        (Inr ()) (Inr ())
      = (server_error ''Error saving data'' keys_failed,
         [SpreadsheetsGet OrdersSheet,
          ValuesAppend OrdersSheet orders_range
            [JArr [JStr ''o7'', JStr ''13556454'', JUndefined, JStr ''Asha'', JUndefined,
              JUndefined, JUndefined, JUndefined, JUndefined, JUndefined, JUndefined,
              JStr ''India'', JUndefined, JUndefined, JUndefined, JUndefined,
              JUndefined, JStr ''India'', JStr ''Mug'', JNum (Finite False 25 2),
              JNum (Finite False 1 1), JStr ''SKU1'', JStr ''Prepaid'', JUndefined,
              JUndefined, JUndefined, JUndefined, JUndefined, JUndefined, JStr [],
              JStr ''pay_1'', JUndefined, JUndefined]]])
   \<and> status (fst (save_to_sheet (\<lambda>v. False)
        [(''orderId'', JStr ''o7''), (''firstName'', JStr ''Asha''), (''PaymentMethod'', JStr ''Prepaid''),
      (''paymentId'', JStr ''pay_1''),
      (''products'', JArr [JObj [(''name'', JStr ''Mug''), (''price'', JNum (Finite False 25 2)),
                                (''quantity'', JNum (Finite False 1 1)), (''SKU'', JStr ''SKU1'')]])]
        (Inr ()) (Inr ()))) = 500"
proof -
  let ?body = "[(''orderId'', JStr ''o7''), (''firstName'', JStr ''Asha''), (''PaymentMethod'', JStr ''Prepaid''),
      (''paymentId'', JStr ''pay_1''),
      (''products'', JArr [JObj [(''name'', JStr ''Mug''), (''price'', JNum (Finite False 25 2)),
                                (''quantity'', JNum (Finite False 1 1)), (''SKU'', JStr ''SKU1'')]])]"
  have a: "map_of ?body ''customizationDetails'' = None"
    by simp
  have rows: "product_rows (\<lambda>v. False) ?body
                = Inr [JArr [JStr ''o7'', JStr ''13556454'', JUndefined, JStr ''Asha'', JUndefined,
              JUndefined, JUndefined, JUndefined, JUndefined, JUndefined, JUndefined,
              JStr ''India'', JUndefined, JUndefined, JUndefined, JUndefined,
              JUndefined, JStr ''India'', JStr ''Mug'', JNum (Finite False 25 2),
              JNum (Finite False 1 1), JStr ''SKU1'', JStr ''Prepaid'', JUndefined,
              JUndefined, JUndefined, JUndefined, JUndefined, JUndefined, JStr [],
              JStr ''pay_1'', JUndefined, JUndefined]]"
    by (simp add: product_rows_def length_positive_def get_field_def order_row_def read_member_def)
  note t = save_to_sheet_without_customization [OF a, of "\<lambda>v. False" "Inr ()" "Inr ()"]
  note r = t [THEN conjunct2, THEN conjunct2, rule_format, OF rows]
  note st = t [THEN conjunct1]
  show ?thesis
    using a r st by (intro conjI)
qed

text \<open>
  C3, as amended. For every \<^verbatim>\<open>POST /api/saveToSheet\<close> request whose \<^verbatim>\<open>products\<close> is an
  empty array or absent and whose \<^verbatim>\<open>customizationDetails\<close> is neither absent nor
  \<^verbatim>\<open>null\<close>, when the reachability check and the append succeed: the append to the
  Orders sheet carries no row, every other call the handler starts is an append to a
  \<^verbatim>\<open>Custom-\<close> sheet, and the response is the success envelope with status 200.
\<close>

theorem save_to_sheet_empty_products:
  assumes "get_field body ''products'' = JArr [] \<or> map_of body ''products'' = None"
    and "get_field body ''customizationDetails'' \<noteq> JUndefined"
    and "get_field body ''customizationDetails'' \<noteq> JNull"
  shows "\<exists>custom.
           save_to_sheet gt0 body (Inr ()) (Inr ())
             = (ok [(''success'', JBool True), (''message'', JStr ''Data saved successfully'')],
                [SpreadsheetsGet OrdersSheet, ValuesAppend OrdersSheet orders_range []] @ custom)
           \<and> (\<forall>c \<in> set custom. \<exists>key details.
                  c = ValuesAppend OrdersSheet (''Custom-'' @ key @ ''!A:Z'') details)
           \<and> status (fst (save_to_sheet gt0 body (Inr ()) (Inr ()))) = 200
           \<and> field (json (fst (save_to_sheet gt0 body (Inr ()) (Inr ())))) ''success'' = JBool True"
proof -
  have rows: "product_rows gt0 body = Inr []"
    using assms(1) by (auto simp: product_rows_def length_positive_def get_field_def)
  from assms(2,3) obtain keys where keys: "own_keys (get_field body ''customizationDetails'') = Some keys"
    using own_keys_None [of "get_field body ''customizationDetails''"] by auto
  let ?custom = "if length keys > 0 then custom_appends (get_field body ''customizationDetails'') keys else []"
  have r: "save_to_sheet gt0 body (Inr ()) (Inr ())
             = (ok [(''success'', JBool True), (''message'', JStr ''Data saved successfully'')],
                [SpreadsheetsGet OrdersSheet, ValuesAppend OrdersSheet orders_range []] @ ?custom)"
    by (simp add: save_to_sheet_def rows keys)
  have c: "\<forall>c \<in> set ?custom. \<exists>key details.
                  c = ValuesAppend OrdersSheet (''Custom-'' @ key @ ''!A:Z'') details"
    by (auto simp: custom_appends_def split: option.splits)
  have s: "status (fst (save_to_sheet gt0 body (Inr ()) (Inr ()))) = 200"
    "field (json (fst (save_to_sheet gt0 body (Inr ()) (Inr ())))) ''success'' = JBool True"
    by (simp_all add: r ok_def field_def get_field_def)
  from r c s show ?thesis by blast
qed

theorem save_to_sheet_empty_products_witness:
  "save_to_sheet (\<lambda>v. False) [(''orderId'', JStr ''o7''), (''products'', JArr []), (''customizationDetails'', JObj [])]
     (Inr ()) (Inr ())
     = (ok [(''success'', JBool True), (''message'', JStr ''Data saved successfully'')],
        [SpreadsheetsGet OrdersSheet, ValuesAppend OrdersSheet orders_range []])
   \<and> save_to_sheet (\<lambda>v. False)
       [(''orderId'', JStr ''o7''),
        (''customizationDetails'', JObj [(''mug'', JArr [JArr [JStr ''o7'', JStr ''Asha'']])])]
       (Inr ()) (Inr ())
     = (ok [(''success'', JBool True), (''message'', JStr ''Data saved successfully'')],
        [SpreadsheetsGet OrdersSheet, ValuesAppend OrdersSheet orders_range [],
         ValuesAppend OrdersSheet ''Custom-mug!A:Z'' [JArr [JStr ''o7'', JStr ''Asha'']]])"
proof -
  let ?b1 = "[(''orderId'', JStr ''o7''), (''products'', JArr []), (''customizationDetails'', JObj [])]"
  let ?b2 = "[(''orderId'', JStr ''o7''),
        (''customizationDetails'', JObj [(''mug'', JArr [JArr [JStr ''o7'', JStr ''Asha'']])])]"
  have p1: "get_field ?b1 ''products'' = JArr [] \<or> map_of ?b1 ''products'' = None"
    by (simp add: get_field_def)
  have p2: "get_field ?b2 ''products'' = JArr [] \<or> map_of ?b2 ''products'' = None"
    by simp
  have c1: "get_field ?b1 ''customizationDetails'' \<noteq> JUndefined" "get_field ?b1 ''customizationDetails'' \<noteq> JNull"
    by (simp_all add: get_field_def)
  have c2: "get_field ?b2 ''customizationDetails'' \<noteq> JUndefined" "get_field ?b2 ''customizationDetails'' \<noteq> JNull"
    by (simp_all add: get_field_def)
  have k1: "own_keys (get_field ?b1 ''customizationDetails'') = Some []"
    by code_simp
  have k2: "own_keys (get_field ?b2 ''customizationDetails'') = Some [''mug'']"
    by code_simp
  have a2: "custom_appends (get_field ?b2 ''customizationDetails'') [''mug'']
              = [ValuesAppend OrdersSheet ''Custom-mug!A:Z'' [JArr [JStr ''o7'', JStr ''Asha'']]]"
    by (simp add: custom_appends_def read_member_def get_field_def)
  have r: "product_rows (\<lambda>v. False) ?b1 = Inr []" "product_rows (\<lambda>v. False) ?b2 = Inr []"
    by (simp_all add: product_rows_def length_positive_def get_field_def)
  show ?thesis
    using save_to_sheet_empty_products [OF p1 c1, of "\<lambda>v. False"]
      save_to_sheet_empty_products [OF p2 c2, of "\<lambda>v. False"]
    by (simp add: save_to_sheet_def r k1 k2 a2)
qed

text \<open>
  C3 as first stated (any body with an empty products array, the reachability check
  succeeding) fails at two inputs. With no \<^verbatim>\<open>customizationDetails\<close> the response is 500
  although every spreadsheet call succeeds; and with \<^verbatim>\<open>customizationDetails\<close> present
  the response is 500 when the append itself is rejected.
\<close>

theorem save_to_sheet_empty_products_counterexample:
  "status (fst (save_to_sheet (\<lambda>v. False) [(''orderId'', JStr ''o7''), (''products'', JArr [])]
                  (Inr ()) (Inr ()))) = 500
   \<and> field (json (fst (save_to_sheet (\<lambda>v. False) [(''orderId'', JStr ''o7''), (''products'', JArr [])]
                  (Inr ()) (Inr ())))) ''success'' = JBool False
   \<and> status (fst (save_to_sheet (\<lambda>v. False)
                  [(''orderId'', JStr ''o7''), (''products'', JArr []), (''customizationDetails'', JObj [])]
                  (Inr ()) (Inl ''The caller does not have permission''))) = 500"
  by (simp add: save_to_sheet_def product_rows_def length_positive_def get_field_def
        server_error_def field_def)

subsection \<open>A generated link is pending\<close>

lemma link_rows_shape:
  "link_rows linkId timestamp ps = Inr rows \<Longrightarrow>
     length rows = length ps
     \<and> (\<forall>r \<in> set rows. \<exists>productId quantity. r = JArr [JStr linkId, productId, quantity, JStr timestamp])"
proof (induction ps arbitrary: rows)
  case Nil
  then show ?case by simp
next
  case (Cons p ps)
  then show ?case
    by (auto split: option.splits sum.splits)
qed

lemma ensure_order_links_appends:
  "ValuesAppend s rg rows \<in> set (snd (ensure_order_links spreadsheetGet addSheet headerAppend))
     \<Longrightarrow> s = OrderLinksSheet \<and> rg = ''OrderLinks!A1:D1'' \<and> rows = [header_row]"
  by (auto simp: ensure_order_links_def split: sum.splits if_splits)

lemma generate_link_appends:
  assumes "ValuesAppend s rg rows \<in> set (snd (generate_link linkId timestamp body spreadsheetGet addSheet headerAppend rowsAppend))"
  shows "(s = OrderLinksSheet \<and> rg = ''OrderLinks!A1:D1'' \<and> rows = [header_row])
         \<or> (s = OrderLinksSheet \<and> rg = ''OrderLinks!A:D''
             \<and> link_rows linkId timestamp (elements (get_field body ''products'')) = Inr rows
             \<and> elements (get_field body ''products'') \<noteq> [])"
proof -
  obtain r calls where e: "ensure_order_links spreadsheetGet addSheet headerAppend = (r, calls)"
    by (cases "ensure_order_links spreadsheetGet addSheet headerAppend")
  have h: "\<And>s rg rows. ValuesAppend s rg rows \<in> set calls \<Longrightarrow>
             s = OrderLinksSheet \<and> rg = ''OrderLinks!A1:D1'' \<and> rows = [header_row]"
    using ensure_order_links_appends [of _ _ _ spreadsheetGet addSheet headerAppend] by (simp add: e)
  show ?thesis
    using assms h
    by (auto simp: generate_link_def Let_def e split: if_splits sum.splits)
qed

lemma generate_link_success:
  assumes "status (fst (generate_link linkId timestamp body spreadsheetGet addSheet headerAppend rowsAppend)) = 200"
  shows "\<exists>rows calls. snd (generate_link linkId timestamp body spreadsheetGet addSheet headerAppend rowsAppend)
                         = calls @ [ValuesAppend OrderLinksSheet ''OrderLinks!A:D'' rows]
           \<and> link_rows linkId timestamp (elements (get_field body ''products'')) = Inr rows
           \<and> elements (get_field body ''products'') \<noteq> []"
proof -
  obtain r calls where e: "ensure_order_links spreadsheetGet addSheet headerAppend = (r, calls)"
    by (cases "ensure_order_links spreadsheetGet addSheet headerAppend")
  show ?thesis
    using assms
    by (auto simp: generate_link_def Let_def e failure_def server_error_def ok_def split: if_splits sum.splits)
qed

lemma payment_status_pending:
  assumes "links \<noteq> []" and "\<forall>link \<in> set links. \<not> truthy (of_cell (at_index link 4))"
  shows "payment_status links = JStr ''pending''"
  using assms by (cases links) (simp_all add: payment_status_def)

lemma get_order_link_matched:
  assumes "filter (\<lambda>row. at_index row 0 = Some linkId) linkRows \<noteq> []"
  shows "status (fst (get_order_link linkId (Inr linkRows) productGet)) \<noteq> 404
         \<and> (status (fst (get_order_link linkId (Inr linkRows) productGet)) = 200 \<longrightarrow>
              field (field (json (fst (get_order_link linkId (Inr linkRows) productGet))) ''data'') ''paymentStatus''
                = payment_status (filter (\<lambda>row. at_index row 0 = Some linkId) linkRows))"
  using assms
  by (auto simp: get_order_link_def Let_def failure_def server_error_def ok_def field_def get_field_def
           split: sum.splits)

lemma get_order_link_joined:
  assumes "filter (\<lambda>row. at_index row 0 = Some linkId) linkRows \<noteq> []"
    and "\<forall>link \<in> set (filter (\<lambda>row. at_index row 0 = Some linkId) linkRows).
           product_row productRows (at_index link 1) \<noteq> None"
  shows "status (fst (get_order_link linkId (Inr linkRows) (Inr productRows))) = 200"
proof -
  from order_products_total [OF assms(2)] obtain items where
    "order_products (products_map productRows) (filter (\<lambda>row. at_index row 0 = Some linkId) linkRows) = Inr items"
    by blast
  with assms(1) show ?thesis
    by (simp add: get_order_link_def Let_def ok_def)
qed

lemma appended_rows_match:
  assumes "\<forall>r \<in> set rows. \<exists>productId quantity. r = JArr [JStr linkId, productId, quantity, JStr timestamp]"
    and "shown (JStr linkId) = linkId"
  shows "\<forall>row \<in> set (appended_rows shown rows). at_index row 0 = Some linkId \<and> at_index row 4 = None"
  using assms by (fastforce simp: appended_rows_def at_index_def)

lemma appended_rows_no_status:
  assumes "\<forall>r \<in> set rows. \<exists>productId quantity. r = JArr [JStr linkId, productId, quantity, JStr timestamp]"
  shows "\<forall>row \<in> set (appended_rows shown rows). at_index row 4 = None"
  using assms by (fastforce simp: appended_rows_def at_index_def)

text \<open>
  C9, as amended. Every row that \<^verbatim>\<open>POST /api/generate-link\<close> appends to the OrderLinks
  sheet, whatever the request and the outcomes of the calls, has exactly four cells and
  none at index 4; the rows of the append to \<^verbatim>\<open>OrderLinks!A:D\<close> are
  \<^verbatim>\<open>[linkId, productId, quantity, timestamp]\<close>, at least one (the only other append is
  the header row of a sheet just created). Consequently, when the link was created
  (status 200) and no earlier row of that link id carries a payment status (the link was
  not touched by \<^verbatim>\<open>update-payment-status\<close>): over the table with the appended rows read
  back, however the sheet shows the entered cells, every response of status 200 from
  \<^verbatim>\<open>GET /api/order-link/:linkId\<close> reports \<^verbatim>\<open>pending\<close>. When moreover the sheet shows
  the link id as it was entered, the handler computes the payment status \<^verbatim>\<open>pending\<close>,
  never answers 404, and answers 200 with \<^verbatim>\<open>pending\<close> when every product of the link
  is in the Products table.
\<close>

theorem generated_link_is_pending:
  "(\<forall>s rg rows. ValuesAppend s rg rows \<in> set (snd (generate_link linkId timestamp body spreadsheetGet addSheet headerAppend rowsAppend)) \<longrightarrow>
       (\<forall>r \<in> set rows. \<exists>a b c d. r = JArr [a, b, c, d] \<and> at_index (elements r) 4 = None))
   \<and> (\<forall>rows. ValuesAppend OrderLinksSheet ''OrderLinks!A:D'' rows \<in> set (snd (generate_link linkId timestamp body spreadsheetGet addSheet headerAppend rowsAppend)) \<longrightarrow>
         rows \<noteq> []
         \<and> (\<forall>r \<in> set rows. \<exists>productId quantity. r = JArr [JStr linkId, productId, quantity, JStr timestamp]))
   \<and> (status (fst (generate_link linkId timestamp body spreadsheetGet addSheet headerAppend rowsAppend)) = 200
        \<and> (\<forall>row \<in> set before. at_index row 0 = Some linkId \<longrightarrow> \<not> truthy (of_cell (at_index row 4)))
        \<longrightarrow> (\<exists>rows.
          last (snd (generate_link linkId timestamp body spreadsheetGet addSheet headerAppend rowsAppend)) = ValuesAppend OrderLinksSheet ''OrderLinks!A:D'' rows
          \<and> (status (fst (get_order_link linkId (Inr (before @ appended_rows shown rows)) productGet)) = 200 \<longrightarrow>
                field (field (json (fst (get_order_link linkId (Inr (before @ appended_rows shown rows)) productGet))) ''data'')
                  ''paymentStatus'' = JStr ''pending'')
          \<and> (shown (JStr linkId) = linkId \<longrightarrow>
                payment_status (filter (\<lambda>row. at_index row 0 = Some linkId) (before @ appended_rows shown rows)) = JStr ''pending''
                \<and> status (fst (get_order_link linkId (Inr (before @ appended_rows shown rows)) productGet)) \<noteq> 404
                \<and> ((\<forall>link \<in> set (filter (\<lambda>row. at_index row 0 = Some linkId) (before @ appended_rows shown rows)). product_row productRows (at_index link 1) \<noteq> None) \<longrightarrow>
                      status (fst (get_order_link linkId (Inr (before @ appended_rows shown rows)) (Inr productRows))) = 200
                      \<and> field (field (json (fst (get_order_link linkId (Inr (before @ appended_rows shown rows)) (Inr productRows)))) ''data'')
                          ''paymentStatus'' = JStr ''pending''))))"
proof (intro conjI)
  show "\<forall>s rg rows. ValuesAppend s rg rows \<in> set (snd (generate_link linkId timestamp body spreadsheetGet addSheet headerAppend rowsAppend)) \<longrightarrow>
       (\<forall>r \<in> set rows. \<exists>a b c d. r = JArr [a, b, c, d] \<and> at_index (elements r) 4 = None)"
  proof (intro allI impI)
  fix s rg rows
  assume "ValuesAppend s rg rows \<in> set (snd (generate_link linkId timestamp body spreadsheetGet addSheet headerAppend rowsAppend))"
  from generate_link_appends [OF this]
  show "\<forall>r \<in> set rows. \<exists>a b c d. r = JArr [a, b, c, d] \<and> at_index (elements r) 4 = None"
  proof
    assume "s = OrderLinksSheet \<and> rg = ''OrderLinks!A1:D1'' \<and> rows = [header_row]"
    then show ?thesis by (simp add: header_row_def at_index_def)
  next
    assume "s = OrderLinksSheet \<and> rg = ''OrderLinks!A:D''
             \<and> link_rows linkId timestamp (elements (get_field body ''products'')) = Inr rows
             \<and> elements (get_field body ''products'') \<noteq> []"
    then have "\<forall>r \<in> set rows. \<exists>productId quantity. r = JArr [JStr linkId, productId, quantity, JStr timestamp]"
      using link_rows_shape by blast
    then show ?thesis by (fastforce simp: at_index_def)
  qed
  qed
next
  show "\<forall>rows. ValuesAppend OrderLinksSheet ''OrderLinks!A:D'' rows \<in> set (snd (generate_link linkId timestamp body spreadsheetGet addSheet headerAppend rowsAppend)) \<longrightarrow>
         rows \<noteq> []
         \<and> (\<forall>r \<in> set rows. \<exists>productId quantity. r = JArr [JStr linkId, productId, quantity, JStr timestamp])"
  proof (intro allI impI)
  fix rows
  assume "ValuesAppend OrderLinksSheet ''OrderLinks!A:D'' rows \<in> set (snd (generate_link linkId timestamp body spreadsheetGet addSheet headerAppend rowsAppend))"
  from generate_link_appends [OF this]
  have "link_rows linkId timestamp (elements (get_field body ''products'')) = Inr rows
        \<and> elements (get_field body ''products'') \<noteq> []"
    by simp
  with link_rows_shape [of linkId timestamp "elements (get_field body ''products'')" rows]
  show "rows \<noteq> []
         \<and> (\<forall>r \<in> set rows. \<exists>productId quantity. r = JArr [JStr linkId, productId, quantity, JStr timestamp])"
    by auto
  qed
next
  show "status (fst (generate_link linkId timestamp body spreadsheetGet addSheet headerAppend rowsAppend)) = 200
        \<and> (\<forall>row \<in> set before. at_index row 0 = Some linkId \<longrightarrow> \<not> truthy (of_cell (at_index row 4)))
        \<longrightarrow> (\<exists>rows.
          last (snd (generate_link linkId timestamp body spreadsheetGet addSheet headerAppend rowsAppend)) = ValuesAppend OrderLinksSheet ''OrderLinks!A:D'' rows
          \<and> (status (fst (get_order_link linkId (Inr (before @ appended_rows shown rows)) productGet)) = 200 \<longrightarrow>
                field (field (json (fst (get_order_link linkId (Inr (before @ appended_rows shown rows)) productGet))) ''data'')
                  ''paymentStatus'' = JStr ''pending'')
          \<and> (shown (JStr linkId) = linkId \<longrightarrow>
                payment_status (filter (\<lambda>row. at_index row 0 = Some linkId) (before @ appended_rows shown rows)) = JStr ''pending''
                \<and> status (fst (get_order_link linkId (Inr (before @ appended_rows shown rows)) productGet)) \<noteq> 404
                \<and> ((\<forall>link \<in> set (filter (\<lambda>row. at_index row 0 = Some linkId) (before @ appended_rows shown rows)). product_row productRows (at_index link 1) \<noteq> None) \<longrightarrow>
                      status (fst (get_order_link linkId (Inr (before @ appended_rows shown rows)) (Inr productRows))) = 200
                      \<and> field (field (json (fst (get_order_link linkId (Inr (before @ appended_rows shown rows)) (Inr productRows)))) ''data'')
                          ''paymentStatus'' = JStr ''pending'')))"
  proof (intro impI)
  assume a: "status (fst (generate_link linkId timestamp body spreadsheetGet addSheet headerAppend rowsAppend)) = 200
        \<and> (\<forall>row \<in> set before. at_index row 0 = Some linkId \<longrightarrow> \<not> truthy (of_cell (at_index row 4)))"
  from generate_link_success [of linkId timestamp body spreadsheetGet addSheet headerAppend rowsAppend] a
  obtain rows calls where
    g: "snd (generate_link linkId timestamp body spreadsheetGet addSheet headerAppend rowsAppend) = calls @ [ValuesAppend OrderLinksSheet ''OrderLinks!A:D'' rows]"
    and lr: "link_rows linkId timestamp (elements (get_field body ''products'')) = Inr rows"
    and ne: "elements (get_field body ''products'') \<noteq> []"
    by blast
  from link_rows_shape [OF lr] ne have rows_ne: "rows \<noteq> []"
    and shape: "\<forall>r \<in> set rows. \<exists>productId quantity. r = JArr [JStr linkId, productId, quantity, JStr timestamp]"
    by auto
  note no_status = appended_rows_no_status [of rows linkId timestamp shown, OF shape]
  let ?t = "before @ appended_rows shown rows"
  let ?m = "filter (\<lambda>row. at_index row 0 = Some linkId) ?t"
  have m_falsy: "\<forall>link \<in> set ?m. \<not> truthy (of_cell (at_index link 4))"
    using a no_status by (auto simp: of_cell_def)
  have pend: "?m \<noteq> [] \<Longrightarrow> payment_status ?m = JStr ''pending''"
    using payment_status_pending [OF _ m_falsy] .
  have l: "last (snd (generate_link linkId timestamp body spreadsheetGet addSheet headerAppend rowsAppend)) = ValuesAppend OrderLinksSheet ''OrderLinks!A:D'' rows"
    by (simp add: g)
  have p200: "status (fst (get_order_link linkId (Inr ?t) productGet)) = 200 \<longrightarrow>
                field (field (json (fst (get_order_link linkId (Inr ?t) productGet))) ''data'') ''paymentStatus'' = JStr ''pending''"
  proof
    assume s: "status (fst (get_order_link linkId (Inr ?t) productGet)) = 200"
    from get_order_link_status_200 [OF s] have m_ne: "?m \<noteq> []"
      by auto
    from get_order_link_matched [OF m_ne, of productGet] s pend [OF m_ne]
    show "field (field (json (fst (get_order_link linkId (Inr ?t) productGet))) ''data'') ''paymentStatus'' = JStr ''pending''"
      by simp
  qed
  have verbatim: "shown (JStr linkId) = linkId \<longrightarrow>
                payment_status ?m = JStr ''pending''
                \<and> status (fst (get_order_link linkId (Inr ?t) productGet)) \<noteq> 404
                \<and> ((\<forall>link \<in> set ?m. product_row productRows (at_index link 1) \<noteq> None) \<longrightarrow>
                      status (fst (get_order_link linkId (Inr ?t) (Inr productRows))) = 200
                      \<and> field (field (json (fst (get_order_link linkId (Inr ?t) (Inr productRows)))) ''data'')
                          ''paymentStatus'' = JStr ''pending'')"
  proof
    assume sh: "shown (JStr linkId) = linkId"
    note ap = appended_rows_match [of rows linkId timestamp shown, OF shape sh]
    have ap_ne: "appended_rows shown rows \<noteq> []"
      using rows_ne by (simp add: appended_rows_def)
    have m_ne: "?m \<noteq> []"
      using ap ap_ne by (auto simp: filter_empty_conv neq_Nil_conv)
    note m1 = get_order_link_matched [OF m_ne, of productGet]
    note m2 = get_order_link_matched [OF m_ne, of "Inr productRows"]
    have j: "(\<forall>link \<in> set ?m. product_row productRows (at_index link 1) \<noteq> None) \<longrightarrow>
                status (fst (get_order_link linkId (Inr ?t) (Inr productRows))) = 200
                \<and> field (field (json (fst (get_order_link linkId (Inr ?t) (Inr productRows)))) ''data'')
                    ''paymentStatus'' = JStr ''pending''"
      using get_order_link_joined [OF m_ne, of productRows] m2 pend [OF m_ne] by simp
    show "payment_status ?m = JStr ''pending''
                \<and> status (fst (get_order_link linkId (Inr ?t) productGet)) \<noteq> 404
                \<and> ((\<forall>link \<in> set ?m. product_row productRows (at_index link 1) \<noteq> None) \<longrightarrow>
                      status (fst (get_order_link linkId (Inr ?t) (Inr productRows))) = 200
                      \<and> field (field (json (fst (get_order_link linkId (Inr ?t) (Inr productRows)))) ''data'')
                          ''paymentStatus'' = JStr ''pending'')"
      using pend [OF m_ne] m1 j by simp
  qed
  show "(\<exists>rows.
          last (snd (generate_link linkId timestamp body spreadsheetGet addSheet headerAppend rowsAppend)) = ValuesAppend OrderLinksSheet ''OrderLinks!A:D'' rows
          \<and> (status (fst (get_order_link linkId (Inr (before @ appended_rows shown rows)) productGet)) = 200 \<longrightarrow>
                field (field (json (fst (get_order_link linkId (Inr (before @ appended_rows shown rows)) productGet))) ''data'')
                  ''paymentStatus'' = JStr ''pending'')
          \<and> (shown (JStr linkId) = linkId \<longrightarrow>
                payment_status (filter (\<lambda>row. at_index row 0 = Some linkId) (before @ appended_rows shown rows)) = JStr ''pending''
                \<and> status (fst (get_order_link linkId (Inr (before @ appended_rows shown rows)) productGet)) \<noteq> 404
                \<and> ((\<forall>link \<in> set (filter (\<lambda>row. at_index row 0 = Some linkId) (before @ appended_rows shown rows)). product_row productRows (at_index link 1) \<noteq> None) \<longrightarrow>
                      status (fst (get_order_link linkId (Inr (before @ appended_rows shown rows)) (Inr productRows))) = 200
                      \<and> field (field (json (fst (get_order_link linkId (Inr (before @ appended_rows shown rows)) (Inr productRows)))) ''data'')
                          ''paymentStatus'' = JStr ''pending'')))"
    using l p200 verbatim by (intro exI [of _ rows] conjI)
  qed
qed

theorem generated_link_is_pending_witness:
  "generate_link ''00ff00ff00ff00ff'' ''2024-01-01T00:00:00.000Z''
     [(''products'', JArr [JObj [(''productId'', JStr ''p1''), (''quantity'', JStr ''2'')]])]
     (Inr [''Sheet1'']) (Inr ()) (Inr ()) (Inr ())
     = (ok [(''success'', JBool True), (''linkId'', JStr ''00ff00ff00ff00ff''),
            (''message'', JStr ''Link generated successfully'')],
        [SpreadsheetsGet OrderLinksSheet, AddSheet OrderLinksSheet ''OrderLinks'',
         ValuesAppend OrderLinksSheet ''OrderLinks!A1:D1'' [header_row],
         ValuesAppend OrderLinksSheet ''OrderLinks!A:D''
           [JArr [JStr ''00ff00ff00ff00ff'', JStr ''p1'', JStr ''2'', JStr ''2024-01-01T00:00:00.000Z'']]])
   \<and> status (fst (get_order_link ''00ff00ff00ff00ff''
         (Inr [[''Link ID'', ''Product ID'', ''Quantity'', ''Timestamp''], [''aaaa'', ''p9'', ''1'', ''t0'', ''paid''],
           [''00ff00ff00ff00ff'', ''p1'', ''2'', ''2024-01-01T00:00:00.000Z'']])
         (Inr [[''p1'', ''Mug'', ''A mug'', '''', '''', '''', '''', '''', '''', '''', '''', '''', ''100'']]))) = 200
   \<and> field (field (json (fst (get_order_link ''00ff00ff00ff00ff''
         (Inr [[''Link ID'', ''Product ID'', ''Quantity'', ''Timestamp''], [''aaaa'', ''p9'', ''1'', ''t0'', ''paid''],
           [''00ff00ff00ff00ff'', ''p1'', ''2'', ''2024-01-01T00:00:00.000Z'']])
         (Inr [[''p1'', ''Mug'', ''A mug'', '''', '''', '''', '''', '''', '''', '''', '''', '''', ''100'']])))) ''data'') ''paymentStatus'' = JStr ''pending''"
proof -
  let ?shown = "\<lambda>v. case v of JStr s \<Rightarrow> s | _ \<Rightarrow> []"
  let ?before = "[[''Link ID'', ''Product ID'', ''Quantity'', ''Timestamp''], [''aaaa'', ''p9'', ''1'', ''t0'', ''paid'']]"
  let ?rows = "[JArr [JStr ''00ff00ff00ff00ff'', JStr ''p1'', JStr ''2'', JStr ''2024-01-01T00:00:00.000Z'']]"
  let ?prods = "[[''p1'', ''Mug'', ''A mug'', '''', '''', '''', '''', '''', '''', '''', '''', '''', ''100'']]"
  let ?g = "generate_link ''00ff00ff00ff00ff'' ''2024-01-01T00:00:00.000Z'' [(''products'', JArr [JObj [(''productId'', JStr ''p1''), (''quantity'', JStr ''2'')]])] (Inr [''Sheet1'']) (Inr ()) (Inr ()) (Inr ())"
  have g: "?g = (ok [(''success'', JBool True), (''linkId'', JStr ''00ff00ff00ff00ff''),
            (''message'', JStr ''Link generated successfully'')],
        [SpreadsheetsGet OrderLinksSheet, AddSheet OrderLinksSheet ''OrderLinks'',
         ValuesAppend OrderLinksSheet ''OrderLinks!A1:D1'' [header_row],
         ValuesAppend OrderLinksSheet ''OrderLinks!A:D'' ?rows])"
    by (simp add: generate_link_def ensure_order_links_def get_field_def Let_def)
  have h1: "status (fst ?g) = 200"
    by (simp add: g ok_def)
  have h2: "?shown (JStr ''00ff00ff00ff00ff'') = ''00ff00ff00ff00ff''"
    by simp
  have h3: "\<forall>row \<in> set ?before. at_index row 0 = Some ''00ff00ff00ff00ff'' \<longrightarrow> \<not> truthy (of_cell (at_index row 4))"
    by (simp add: at_index_def)
  note t = generated_link_is_pending [where linkId = "''00ff00ff00ff00ff''" and timestamp = "''2024-01-01T00:00:00.000Z''"
      and body = "[(''products'', JArr [JObj [(''productId'', JStr ''p1''), (''quantity'', JStr ''2'')]])]" and spreadsheetGet = "Inr [''Sheet1'']" and addSheet = "Inr ()"
      and headerAppend = "Inr ()" and rowsAppend = "Inr ()" and shown = "?shown" and before = "?before"
      and productRows = "?prods" and productGet = "Inr ?prods"]
  from t [THEN conjunct2, THEN conjunct2, rule_format, OF conjI [OF h1 h3]] h2
  obtain rows where
    l: "last (snd ?g) = ValuesAppend OrderLinksSheet ''OrderLinks!A:D'' rows"
    and j: "(\<forall>link \<in> set (filter (\<lambda>row. at_index row 0 = Some ''00ff00ff00ff00ff'') (?before @ appended_rows ?shown rows)).
               product_row ?prods (at_index link 1) \<noteq> None) \<longrightarrow>
            status (fst (get_order_link ''00ff00ff00ff00ff'' (Inr (?before @ appended_rows ?shown rows)) (Inr ?prods))) = 200
            \<and> field (field (json (fst (get_order_link ''00ff00ff00ff00ff'' (Inr (?before @ appended_rows ?shown rows)) (Inr ?prods)))) ''data'')
                 ''paymentStatus'' = JStr ''pending''"
    by blast
  from l have rows: "rows = ?rows"
    by (simp add: g)
  have tab: "?before @ appended_rows ?shown rows = [[''Link ID'', ''Product ID'', ''Quantity'', ''Timestamp''], [''aaaa'', ''p9'', ''1'', ''t0'', ''paid''],
           [''00ff00ff00ff00ff'', ''p1'', ''2'', ''2024-01-01T00:00:00.000Z'']]"
    by (simp add: rows appended_rows_def)
  have present: "\<forall>link \<in> set (filter (\<lambda>row. at_index row 0 = Some ''00ff00ff00ff00ff'') ([[''Link ID'', ''Product ID'', ''Quantity'', ''Timestamp''], [''aaaa'', ''p9'', ''1'', ''t0'', ''paid''],
           [''00ff00ff00ff00ff'', ''p1'', ''2'', ''2024-01-01T00:00:00.000Z'']])).
               product_row ?prods (at_index link 1) \<noteq> None"
    by (simp add: at_index_def product_row_def)
  from j present have "status (fst (get_order_link ''00ff00ff00ff00ff'' (Inr ([[''Link ID'', ''Product ID'', ''Quantity'', ''Timestamp''], [''aaaa'', ''p9'', ''1'', ''t0'', ''paid''],
           [''00ff00ff00ff00ff'', ''p1'', ''2'', ''2024-01-01T00:00:00.000Z'']])) (Inr ?prods))) = 200
            \<and> field (field (json (fst (get_order_link ''00ff00ff00ff00ff'' (Inr ([[''Link ID'', ''Product ID'', ''Quantity'', ''Timestamp''], [''aaaa'', ''p9'', ''1'', ''t0'', ''paid''],
           [''00ff00ff00ff00ff'', ''p1'', ''2'', ''2024-01-01T00:00:00.000Z'']])) (Inr ?prods)))) ''data'')
                 ''paymentStatus'' = JStr ''pending''"
    unfolding tab by blast
  with g show ?thesis by blast
qed

text \<open>
  C9 as first stated (every link created and not yet touched reports \<^verbatim>\<open>pending\<close>) fails
  in two ways. The append enters the cells with \<^verbatim>\<open>USER_ENTERED\<close> and
  \<^verbatim>\<open>generateLinkId\<close> can return sixteen digits: a sheet that shows such an id in
  another form holds no row whose first cell equals the id, and the handler answers 404.
  And with the id shown as entered, a link of a product that the Products table does not
  hold is answered 500. Neither response reports a payment status.
\<close>

theorem generated_link_is_pending_counterexample:
  "generate_link ''1234567890123456'' ''2024-01-01T00:00:00.000Z''
     [(''products'', JArr [JObj [(''productId'', JStr ''p1''), (''quantity'', JStr ''2'')]])]
     (Inr [''OrderLinks'']) (Inr ()) (Inr ()) (Inr ())
     = (ok [(''success'', JBool True), (''linkId'', JStr ''1234567890123456''),
            (''message'', JStr ''Link generated successfully'')],
        [SpreadsheetsGet OrderLinksSheet,
         ValuesAppend OrderLinksSheet ''OrderLinks!A:D''
           [JArr [JStr ''1234567890123456'', JStr ''p1'', JStr ''2'', JStr ''2024-01-01T00:00:00.000Z'']]])
   \<and> get_order_link ''1234567890123456''
        (Inr ([[''Link ID'', ''Product ID'', ''Quantity'', ''Timestamp'']]
              @ appended_rows (\<lambda>v. case v of JStr s \<Rightarrow> if s = ''1234567890123456'' then ''1.23457E+15'' else s | _ \<Rightarrow> [])
                  [JArr [JStr ''1234567890123456'', JStr ''p1'', JStr ''2'', JStr ''2024-01-01T00:00:00.000Z'']]))
        (Inr [[''p1'', ''Mug'', ''A mug'', '''', '''', '''', '''', '''', '''', '''', '''', '''', ''100'']])
       = (failure 404 ''Order link not found'', [ValuesGet OrderLinksSheet order_links_range])
   \<and> generate_link ''00ff00ff00ff00ff'' ''2024-01-01T00:00:00.000Z''
        [(''products'', JArr [JObj [(''productId'', JStr ''p7''), (''quantity'', JStr ''2'')]])]
        (Inr [''OrderLinks'']) (Inr ()) (Inr ()) (Inr ())
       = (ok [(''success'', JBool True), (''linkId'', JStr ''00ff00ff00ff00ff''),
              (''message'', JStr ''Link generated successfully'')],
          [SpreadsheetsGet OrderLinksSheet,
           ValuesAppend OrderLinksSheet ''OrderLinks!A:D''
             [JArr [JStr ''00ff00ff00ff00ff'', JStr ''p7'', JStr ''2'', JStr ''2024-01-01T00:00:00.000Z'']]])
   \<and> get_order_link ''00ff00ff00ff00ff''
        (Inr ([[''Link ID'', ''Product ID'', ''Quantity'', ''Timestamp'']]
              @ appended_rows (\<lambda>v. case v of JStr s \<Rightarrow> s | _ \<Rightarrow> [])
                  [JArr [JStr ''00ff00ff00ff00ff'', JStr ''p7'', JStr ''2'', JStr ''2024-01-01T00:00:00.000Z'']]))
        (Inr [[''p1'', ''Mug'', ''A mug'', '''', '''', '''', '''', '''', '''', '''', '''', '''', ''100'']])
       = (server_error ''Error fetching order details'' ''Product not found: p7'',
          [ValuesGet OrderLinksSheet order_links_range, ValuesGet ProductsSheet products_range])"
  by (simp add: generate_link_def ensure_order_links_def get_field_def Let_def
        get_order_link_def appended_rows_def at_index_def products_map_def of_cell_def)

subsection \<open>The admin token and the middleware\<close>

lemma code_lt_256: "code c < 256"
  by (simp add: code_def)

lemma char_of_code: "char_of (code c) = c"
  by (simp add: code_def)

lemma code_char_of: "n < 256 \<Longrightarrow> code (char_of n) = n"
  by (simp add: code_def)

lemma triple:
  fixes x y z :: nat
  assumes "y < 256" "z < 256"
  shows "x div 4 * 4 + (x mod 4 * 16 + y div 16) div 16 = x"
    and "(x mod 4 * 16 + y div 16) mod 16 * 16 + (y mod 16 * 4 + z div 64) div 4 = y"
    and "(y mod 16 * 4 + z div 64) mod 4 * 64 + z mod 64 = z"
proof -
  have a: "y div 16 < 16" using assms(1) by (simp add: div_less_iff_less_mult)
  have b: "z div 64 < 4" using assms(2) by (simp add: div_less_iff_less_mult)
  show "x div 4 * 4 + (x mod 4 * 16 + y div 16) div 16 = x"
    using a by simp
  show "(x mod 4 * 16 + y div 16) mod 16 * 16 + (y mod 16 * 4 + z div 64) div 4 = y"
    using a b by simp
  show "(y mod 16 * 4 + z div 64) mod 4 * 64 + z mod 64 = z"
    using b by simp
qed

lemma b64_char_code:
  "v < 64 \<Longrightarrow> code (b64_char v)
     = (if v < 26 then v + 65 else if v < 52 then v + 71 else if v < 62 then v - 4
        else if v = 62 then 43 else 47)"
  by (simp add: b64_char_def code_def)

lemma b64_value_char: "v < 64 \<Longrightarrow> b64_value (b64_char v) = Some v"
  by (auto simp: b64_value_def Let_def b64_char_code)

lemma b64_char_not_pad: "v < 64 \<Longrightarrow> b64_char v \<noteq> CHR ''=''"
proof
  assume v: "v < 64" and e: "b64_char v = CHR ''=''"
  from e have "code (b64_char v) = 61" by (simp add: code_def)
  with v show False by (simp add: b64_char_code split: if_splits)
qed

lemma b64_char_not_space: "v < 64 \<Longrightarrow> b64_char v \<noteq> CHR '' ''"
proof
  assume v: "v < 64" and e: "b64_char v = CHR '' ''"
  from e have "code (b64_char v) = 32" by (simp add: code_def)
  with v show False by (simp add: b64_char_code split: if_splits)
qed

lemma b64_sextets_char: "v < 64 \<Longrightarrow> b64_sextets (b64_char v # cs) = v # b64_sextets cs"
  by (simp add: b64_value_char b64_char_not_pad)

lemma b64_sextets_pad: "b64_sextets (CHR ''='' # cs) = []"
  by simp

lemma sextet_bounds:
  "code a div 4 < 64"
  "code a mod 4 * 16 < 64"
  "code a mod 4 * 16 + code b div 16 < 64"
  "code b mod 16 * 4 < 64"
  "code b mod 16 * 4 + code c div 64 < 64"
  "code c mod 64 < 64"
proof -
  have a: "code a < 256" and b: "code b < 256" and c: "code c < 256"
    by (rule code_lt_256)+
  have "code b div 16 < 16" using b by (simp add: div_less_iff_less_mult)
  moreover have "code c div 64 < 4" using c by (simp add: div_less_iff_less_mult)
  moreover have "code a mod 4 < 4" "code b mod 16 < 16" by simp_all
  ultimately show "code a mod 4 * 16 + code b div 16 < 64" "code b mod 16 * 4 + code c div 64 < 64"
    "code a mod 4 * 16 < 64" "code b mod 16 * 4 < 64"
    by linarith+
  show "code a div 4 < 64" using a by (simp add: div_less_iff_less_mult)
  show "code c mod 64 < 64" by simp
qed

lemma b64_bytes_three:
  "b64_bytes (code a div 4 # (code a mod 4 * 16 + code b div 16)
              # (code b mod 16 * 4 + code c div 64) # code c mod 64 # vs)
     = a # b # c # b64_bytes vs"
  by (simp only: b64_bytes.simps char_of_code append.simps
        triple(1,2) [OF code_lt_256 [of b] code_lt_256 [of c], of "code a"]
        triple(3) [OF code_lt_256 [of b] code_lt_256 [of c]])

lemma b64_bytes_two:
  "b64_bytes [code a div 4, code a mod 4 * 16 + code b div 16, code b mod 16 * 4] = [a, b]"
proof -
  have "code a div 4 * 4 + (code a mod 4 * 16 + code b div 16) div 16 = code a"
    and "(code a mod 4 * 16 + code b div 16) mod 16 * 16 + code b mod 16 * 4 div 4 = code b"
    using triple(1,2) [of "code b" 0 "code a"] code_lt_256 [of b] by simp_all
  then show ?thesis
    by (simp only: b64_bytes.simps char_of_code)
qed

lemma b64_bytes_one: "b64_bytes [code a div 4, code a mod 4 * 16] = [a]"
proof -
  have "code a div 4 * 4 + code a mod 4 * 16 div 16 = code a" by simp
  then show ?thesis
    by (simp only: b64_bytes.simps char_of_code)
qed

lemma b64_decode_encode: "b64_decode (b64_encode bs) = bs"
proof (induction bs rule: b64_encode.induct)
  case 1
  show ?case by (simp add: b64_decode_def)
next
  case (2 a)
  have "b64_sextets (b64_encode [a]) = [code a div 4, code a mod 4 * 16]"
    by (simp add: b64_sextets_char b64_sextets_pad sextet_bounds del: b64_sextets.simps(2))
  then show ?case
    by (simp only: b64_decode_def b64_bytes_one)
next
  case (3 a b)
  have "b64_sextets (b64_encode [a, b])
          = [code a div 4, code a mod 4 * 16 + code b div 16, code b mod 16 * 4]"
    by (simp add: b64_sextets_char b64_sextets_pad sextet_bounds del: b64_sextets.simps(2))
  then show ?case
    by (simp only: b64_decode_def b64_bytes_two)
next
  case (4 a b c rest)
  have "b64_sextets (b64_encode (a # b # c # rest))
          = code a div 4 # (code a mod 4 * 16 + code b div 16)
            # (code b mod 16 * 4 + code c div 64) # code c mod 64 # b64_sextets (b64_encode rest)"
    by (simp add: b64_sextets_char b64_sextets_pad sextet_bounds del: b64_sextets.simps(2))
  with 4 show ?case
    by (simp only: b64_decode_def b64_bytes_three)
qed

lemma b64_encode_no_space: "CHR '' '' \<notin> set (b64_encode bs)"
  by (induction bs rule: b64_encode.induct)
     (simp_all add: b64_char_not_space [symmetric] sextet_bounds b64_char_not_space)

lemma at_index_Nil: "at_index [] i = None"
  by (simp add: at_index_def)

lemma at_index_Cons_0: "at_index (x # xs) 0 = Some x"
  by (simp add: at_index_def)

lemma at_index_Cons_Suc: "at_index (x # xs) (Suc i) = at_index xs i"
  by (simp add: at_index_def)

lemma split_at_first: "at_index (split_at sep s) 0 = Some (takeWhile (\<lambda>x. x \<noteq> sep) s)"
  by (induction s) (auto simp: at_index_Cons_0 at_index_Nil split: list.splits)

lemma split_at_second:
  "at_index (split_at sep s) (Suc 0)
     = (case dropWhile (\<lambda>x. x \<noteq> sep) s of
          [] \<Rightarrow> None
        | _ # rest \<Rightarrow> Some (takeWhile (\<lambda>x. x \<noteq> sep) rest))"
proof (induction s)
  case Nil
  show ?case by (simp add: at_index_Cons_Suc at_index_Nil)
next
  case (Cons c cs)
  show ?case
  proof (cases "c = sep")
    case True
    then show ?thesis
      by (simp add: at_index_Cons_Suc split_at_first)
  next
    case False
    obtain p ps where p: "split_at sep cs = p # ps"
      using split_at_first [of sep cs] by (cases "split_at sep cs") (simp_all add: at_index_Nil)
    with False Cons show ?thesis
      by (simp add: at_index_Cons_Suc)
  qed
qed

lemma takeWhile_upto_sep:
  "sep \<notin> set p \<Longrightarrow> takeWhile (\<lambda>x. x \<noteq> sep) (p @ sep # zs) = p"
  by (induction p) auto

lemma dropWhile_upto_sep:
  "sep \<notin> set p \<Longrightarrow> dropWhile (\<lambda>x. x \<noteq> sep) (p @ sep # zs) = sep # zs"
  by (induction p) auto

lemma takeWhile_no_sep:
  "sep \<notin> set p \<Longrightarrow> takeWhile (\<lambda>x. x \<noteq> sep) p = p"
  by (induction p) auto

lemma takeWhile_eq_no_sep:
  assumes "sep \<notin> set p"
  shows "takeWhile (\<lambda>x. x \<noteq> sep) r = p \<longleftrightarrow> r = p \<or> prefix (p @ [sep]) r"
proof
  assume t: "takeWhile (\<lambda>x. x \<noteq> sep) r = p"
  show "r = p \<or> prefix (p @ [sep]) r"
  proof (cases "dropWhile (\<lambda>x. x \<noteq> sep) r")
    case Nil
    with takeWhile_dropWhile_id [of "\<lambda>x. x \<noteq> sep" r] t show ?thesis by simp
  next
    case (Cons x xs)
    with hd_dropWhile [of "\<lambda>x. x \<noteq> sep" r] have "x = sep" by auto
    with Cons takeWhile_dropWhile_id [of "\<lambda>x. x \<noteq> sep" r] t have "r = p @ sep # xs"
      by simp
    then show ?thesis by (simp add: prefix_def)
  qed
next
  assume "r = p \<or> prefix (p @ [sep]) r"
  then show "takeWhile (\<lambda>x. x \<noteq> sep) r = p"
    using assms by (auto simp: prefix_def takeWhile_upto_sep takeWhile_no_sep)
qed

lemma credentials_split:
  assumes "CHR '':'' \<notin> set u" and "CHR '':'' \<notin> set p"
  shows "at_index (split_at CHR '':'' d) 0 = Some u \<and> at_index (split_at CHR '':'' d) 1 = Some p
         \<longleftrightarrow> d = u @ '':'' @ p \<or> prefix (u @ '':'' @ p @ '':'') d"
proof
  assume l: "at_index (split_at CHR '':'' d) 0 = Some u \<and> at_index (split_at CHR '':'' d) 1 = Some p"
  then have u: "takeWhile (\<lambda>x. x \<noteq> CHR '':'') d = u"
    by (simp add: split_at_first)
  from l obtain x rest where dr: "dropWhile (\<lambda>x. x \<noteq> CHR '':'') d = x # rest"
    and p: "takeWhile (\<lambda>x. x \<noteq> CHR '':'') rest = p"
    by (auto simp: split_at_second split: list.splits)
  from dr hd_dropWhile [of "\<lambda>x. x \<noteq> CHR '':''" d] have "x = CHR '':''" by auto
  with u dr takeWhile_dropWhile_id [of "\<lambda>x. x \<noteq> CHR '':''" d] have d: "d = u @ CHR '':'' # rest"
    by simp
  from p assms(2) have "rest = p \<or> prefix (p @ '':'') rest"
    by (simp add: takeWhile_eq_no_sep)
  with d show "d = u @ '':'' @ p \<or> prefix (u @ '':'' @ p @ '':'') d"
    by auto
next
  assume "d = u @ '':'' @ p \<or> prefix (u @ '':'' @ p @ '':'') d"
  then obtain rest where d: "d = u @ CHR '':'' # rest" and r: "rest = p \<or> prefix (p @ '':'') rest"
    by (auto simp: prefix_def)
  from r assms(2) have p: "takeWhile (\<lambda>x. x \<noteq> CHR '':'') rest = p"
    by (simp add: takeWhile_eq_no_sep)
  from assms(1) have "takeWhile (\<lambda>x. x \<noteq> CHR '':'') d = u"
    and "dropWhile (\<lambda>x. x \<noteq> CHR '':'') d = CHR '':'' # rest"
    by (simp_all add: d takeWhile_upto_sep dropWhile_upto_sep)
  with p show "at_index (split_at CHR '':'' d) 0 = Some u \<and> at_index (split_at CHR '':'' d) 1 = Some p"
    by (simp add: split_at_first split_at_second)
qed

lemma bearer_token:
  assumes "prefix ''Bearer '' h"
  shows "at_index (split_at CHR '' '' h) (Suc 0) = Some (takeWhile (\<lambda>c. c \<noteq> CHR '' '') (drop 7 h))"
proof -
  from assms obtain rest where "h = ''Bearer '' @ rest"
    by (auto simp: prefix_def)
  then show ?thesis
    by (simp add: at_index_Cons_Suc split_at_first)
qed

lemma middleware_bearer:
  assumes "prefix ''Bearer '' h"
  shows "authenticateAdmin cfg (Some h)
           = (if at_index (split_at CHR '':'' (utf8_toString (b64_decode (takeWhile (\<lambda>c. c \<noteq> CHR '' '') (drop 7 h))))) 0 = admin_username cfg
                 \<and> at_index (split_at CHR '':'' (utf8_toString (b64_decode (takeWhile (\<lambda>c. c \<noteq> CHR '' '') (drop 7 h))))) 1 = admin_password cfg
              then Next else Respond (failure 401 ''Invalid credentials''))"
proof -
  from assms have "h \<noteq> []" by auto
  with assms show ?thesis
    by (simp add: authenticateAdmin_def bearer_token Let_def)
qed

lemma middleware_cases:
  "authenticateAdmin cfg authHeader = Next
   \<or> (\<exists>msg. authenticateAdmin cfg authHeader = Respond (failure 401 msg))"
  by (auto simp: authenticateAdmin_def Let_def split: option.splits)

text \<open>
  C4, as amended. For every configured credential pair whose username and password
  contain no colon: \<^verbatim>\<open>POST /api/admin/login\<close> with exactly the configured username and
  password returns \<^verbatim>\<open>success: true\<close> with the token \<^verbatim>\<open>base64("username:password")\<close>;
  \<^verbatim>\<open>authenticateAdmin\<close> passes a request if and only if its Authorization header starts
  with \<^verbatim>\<open>Bearer \<close> and the text that Node decodes from the token (the header from its
  eighth character up to the next space) is \<^verbatim>\<open>username:password\<close> or starts with
  \<^verbatim>\<open>username:password:\<close>; every other request to \<^verbatim>\<open>/api/products\<close> receives 401 with
  \<^verbatim>\<open>success: false\<close> and no sheet is read; and the token that login returns passes the
  middleware (for credentials that are well-formed text).
\<close>

theorem admin_token_middleware:
  assumes "admin_username cfg = Some u" and "admin_password cfg = Some p"
    and "CHR '':'' \<notin> set u" and "CHR '':'' \<notin> set p"
  shows "(get_field body ''username'' = JStr u \<and> get_field body ''password'' = JStr p \<longrightarrow>
            admin_login cfg body
              = ok [(''success'', JBool True), (''token'', JStr (b64_encode (u @ '':'' @ p)))])
         \<and> (authenticateAdmin cfg authHeader = Next \<longleftrightarrow>
              (\<exists>h. authHeader = Some h \<and> prefix ''Bearer '' h
                 \<and> (utf8_toString (b64_decode (takeWhile (\<lambda>c. c \<noteq> CHR '' '') (drop 7 h))) = u @ '':'' @ p
                      \<or> prefix (u @ '':'' @ p @ '':'') (utf8_toString (b64_decode (takeWhile (\<lambda>c. c \<noteq> CHR '' '') (drop 7 h)))))))
         \<and> (authenticateAdmin cfg authHeader \<noteq> Next \<longrightarrow>
              status (fst (get_products cfg authHeader valuesGet)) = 401
              \<and> field (json (fst (get_products cfg authHeader valuesGet))) ''success'' = JBool False
              \<and> snd (get_products cfg authHeader valuesGet) = [])
         \<and> (utf8_toString (u @ '':'' @ p) = u @ '':'' @ p \<longrightarrow>
              authenticateAdmin cfg (Some (''Bearer '' @ b64_encode (u @ '':'' @ p))) = Next)"
proof (intro conjI)
  show "get_field body ''username'' = JStr u \<and> get_field body ''password'' = JStr p \<longrightarrow>
            admin_login cfg body
              = ok [(''success'', JBool True), (''token'', JStr (b64_encode (u @ '':'' @ p)))]"
    using assms(1,2) by (simp add: admin_login_def of_cell_def)
next
  have bearer: "authenticateAdmin cfg (Some h) = Next \<longleftrightarrow>
                  utf8_toString (b64_decode (takeWhile (\<lambda>c. c \<noteq> CHR '' '') (drop 7 h))) = u @ '':'' @ p
                  \<or> prefix (u @ '':'' @ p @ '':'') (utf8_toString (b64_decode (takeWhile (\<lambda>c. c \<noteq> CHR '' '') (drop 7 h))))"
    if "prefix ''Bearer '' h" for h
    using credentials_split [OF assms(3,4), of "utf8_toString (b64_decode (takeWhile (\<lambda>c. c \<noteq> CHR '' '') (drop 7 h)))"]
    by (simp add: middleware_bearer [OF that] assms(1,2))
  have other: "authenticateAdmin cfg (Some h) \<noteq> Next" if "\<not> prefix ''Bearer '' h" for h
    using that by (simp add: authenticateAdmin_def)
  have none: "authenticateAdmin cfg None \<noteq> Next"
    by (simp add: authenticateAdmin_def)
  show "authenticateAdmin cfg authHeader = Next \<longleftrightarrow>
              (\<exists>h. authHeader = Some h \<and> prefix ''Bearer '' h
                 \<and> (utf8_toString (b64_decode (takeWhile (\<lambda>c. c \<noteq> CHR '' '') (drop 7 h))) = u @ '':'' @ p
                      \<or> prefix (u @ '':'' @ p @ '':'') (utf8_toString (b64_decode (takeWhile (\<lambda>c. c \<noteq> CHR '' '') (drop 7 h))))))"
  proof (cases authHeader)
    case None
    with none show ?thesis by simp
  next
    case (Some h)
    show ?thesis
    proof (cases "prefix ''Bearer '' h")
      case True
      with Some bearer [OF True] show ?thesis by simp
    next
      case False
      with Some other [OF False] show ?thesis by simp
    qed
  qed
next
  show "authenticateAdmin cfg authHeader \<noteq> Next \<longrightarrow>
              status (fst (get_products cfg authHeader valuesGet)) = 401
              \<and> field (json (fst (get_products cfg authHeader valuesGet))) ''success'' = JBool False
              \<and> snd (get_products cfg authHeader valuesGet) = []"
    using middleware_cases [of cfg authHeader]
    by (auto simp: get_products_def failure_def field_def get_field_def)
next
  show "utf8_toString (u @ '':'' @ p) = u @ '':'' @ p \<longrightarrow>
              authenticateAdmin cfg (Some (''Bearer '' @ b64_encode (u @ '':'' @ p))) = Next"
  proof
    assume wf: "utf8_toString (u @ '':'' @ p) = u @ '':'' @ p"
    let ?h = "''Bearer '' @ b64_encode (u @ '':'' @ p)"
    have pre: "prefix ''Bearer '' ?h" by simp
    have tok: "takeWhile (\<lambda>c. c \<noteq> CHR '' '') (drop 7 ?h) = b64_encode (u @ '':'' @ p)"
      using b64_encode_no_space [of "u @ '':'' @ p"] by (simp add: takeWhile_no_sep)
    have "at_index (split_at CHR '':'' (u @ '':'' @ p)) 0 = Some u
          \<and> at_index (split_at CHR '':'' (u @ '':'' @ p)) 1 = Some p"
      using credentials_split [OF assms(3,4), of "u @ '':'' @ p"] by simp
    then show "authenticateAdmin cfg (Some ?h) = Next"
      by (simp only: middleware_bearer [OF pre] tok b64_decode_encode wf assms(1,2) if_True simp_thms)
  qed
qed

theorem admin_token_middleware_witness:
  "CHR '':'' \<notin> set ''admin'' \<and> CHR '':'' \<notin> set ''secret''
   \<and> utf8_toString ''admin:secret'' = ''admin:secret''
   \<and> admin_login \<lparr>admin_username = Some ''admin'', admin_password = Some ''secret''\<rparr> [(''username'', JStr ''admin''), (''password'', JStr ''secret'')]
       = ok [(''success'', JBool True), (''token'', JStr ''YWRtaW46c2VjcmV0'')]
   \<and> authenticateAdmin \<lparr>admin_username = Some ''admin'', admin_password = Some ''secret''\<rparr> (Some ''Bearer YWRtaW46c2VjcmV0'') = Next
   \<and> authenticateAdmin \<lparr>admin_username = Some ''admin'', admin_password = Some ''secret''\<rparr> (Some ''Bearer YWRtaW46d3Jvbmc='') \<noteq> Next
   \<and> status (fst (get_products \<lparr>admin_username = Some ''admin'', admin_password = Some ''secret''\<rparr> (Some ''Bearer YWRtaW46d3Jvbmc='') (Inr []))) = 401
   \<and> snd (get_products \<lparr>admin_username = Some ''admin'', admin_password = Some ''secret''\<rparr> (Some ''Bearer YWRtaW46d3Jvbmc='') (Inr [])) = []"
proof -
  let ?cfg = "\<lparr>admin_username = Some ''admin'', admin_password = Some ''secret''\<rparr>"
  let ?body = "[(''username'', JStr ''admin''), (''password'', JStr ''secret'')]"
  have c: "admin_username ?cfg = Some ''admin''" "admin_password ?cfg = Some ''secret''"
    by simp_all
  have n: "CHR '':'' \<notin> set ''admin''" "CHR '':'' \<notin> set ''secret''"
    by simp_all
  have wf: "utf8_toString (''admin'' @ '':'' @ ''secret'') = ''admin'' @ '':'' @ ''secret''"
    by code_simp
  have enc: "b64_encode (''admin'' @ '':'' @ ''secret'') = ''YWRtaW46c2VjcmV0''"
    by code_simp
  have b: "get_field ?body ''username'' = JStr ''admin'' \<and> get_field ?body ''password'' = JStr ''secret''"
    by (simp add: get_field_def)
  have wrong: "authenticateAdmin ?cfg (Some ''Bearer YWRtaW46d3Jvbmc='') \<noteq> Next"
    by code_simp
  note t = admin_token_middleware [OF c n, where body = "?body"
      and authHeader = "Some ''Bearer YWRtaW46d3Jvbmc=''" and valuesGet = "Inr []"]
  from t b have login: "admin_login ?cfg ?body
       = ok [(''success'', JBool True), (''token'', JStr (b64_encode (''admin'' @ '':'' @ ''secret'')))]"
    by blast
  from t wf have pass: "authenticateAdmin ?cfg (Some (''Bearer '' @ b64_encode (''admin'' @ '':'' @ ''secret''))) = Next"
    by blast
  from t wrong have r: "status (fst (get_products ?cfg (Some ''Bearer YWRtaW46d3Jvbmc='') (Inr []))) = 401
       \<and> snd (get_products ?cfg (Some ''Bearer YWRtaW46d3Jvbmc='') (Inr [])) = []"
    by blast
  from wf have wf': "utf8_toString ''admin:secret'' = ''admin:secret''" by simp
  from login have login': "admin_login ?cfg ?body
       = ok [(''success'', JBool True), (''token'', JStr ''YWRtaW46c2VjcmV0'')]"
    by (simp only: enc)
  from pass have pass': "authenticateAdmin ?cfg (Some ''Bearer YWRtaW46c2VjcmV0'') = Next"
    by (simp only: enc) simp
  from n wf' login' pass' wrong r show ?thesis
    by (intro conjI) (erule conjunct1 conjunct2 | assumption)+
qed

text \<open>
  C4 as first stated fails: the middleware accepts tokens other than
  \<^verbatim>\<open>base64("username:password")\<close>. With the credentials \<^verbatim>\<open>admin\<close> and \<^verbatim>\<open>secret\<close> it
  passes the Base64 text of \<^verbatim>\<open>admin:secret:x\<close>, because only the first two parts of
  the split are compared; with \<^verbatim>\<open>admin\<close> and \<^verbatim>\<open>pass\<close> it passes the token without
  its padding, because the decoder is lenient. And for a password with a colon
  (\<^verbatim>\<open>a:b\<close>) the middleware rejects the very token that login returns, which is why the
  amended statement is about credentials without a colon.
\<close>

theorem admin_token_middleware_counterexample:
  "authenticateAdmin \<lparr>admin_username = Some ''admin'', admin_password = Some ''secret''\<rparr>
     (Some ''Bearer YWRtaW46c2VjcmV0Ong='') = Next
   \<and> b64_encode ''admin:secret'' = ''YWRtaW46c2VjcmV0''
   \<and> ''YWRtaW46c2VjcmV0Ong='' \<noteq> b64_encode ''admin:secret''
   \<and> authenticateAdmin \<lparr>admin_username = Some ''admin'', admin_password = Some ''pass''\<rparr>
       (Some ''Bearer YWRtaW46cGFzcw'') = Next
   \<and> ''YWRtaW46cGFzcw'' \<noteq> b64_encode ''admin:pass''
   \<and> admin_login \<lparr>admin_username = Some ''admin'', admin_password = Some ''a:b''\<rparr>
        [(''username'', JStr ''admin''), (''password'', JStr ''a:b'')]
       = ok [(''success'', JBool True), (''token'', JStr ''YWRtaW46YTpi'')]
   \<and> authenticateAdmin \<lparr>admin_username = Some ''admin'', admin_password = Some ''a:b''\<rparr>
       (Some ''Bearer YWRtaW46YTpi'') = Respond (failure 401 ''Invalid credentials'')"
  by code_simp

end
